theory Spec2Isabelle
  imports Complex_Main "HOL-Library.Multiset"
begin

section \<open>News sentiment aggregation of the two MarketLens front ends\<close>

text \<open>
  The desktop window (\<^verbatim>\<open>desktop_stock_app.py\<close>) and the web dashboard
  (\<^verbatim>\<open>stock_app.py\<close>) both combine the results of two news fetchers. A fetcher
  result is a pair of an optional sentiment score and a list of titles. Scores are Python
  floats. In this first model they are real numbers and the mean is exact; the mean with
  the rounding of \<^verbatim>\<open>float64\<close> follows in its own subsection, for the property that
  depends on it. The type of a title is left open: the external fetchers return strings,
  the desktop wrapper can also return Python's \<^verbatim>\<open>None\<close> as a title.
\<close>

type_synonym 't sample = "real option \<times> 't list"

text \<open>
  The local variables of the aggregation block. Both front ends assign all three of them
  before reading them.
\<close>

record 't agg_vars =
  combined_sentiments :: "real list"
  combined_news_titles :: "'t list"
  overall_news_sentiment :: "real option"

text \<open>\<^verbatim>\<open>combined_sentiments = []; combined_news_titles = []\<close>\<close>

definition init_lists :: "'t agg_vars \<Rightarrow> 't agg_vars" where
  "init_lists st = st\<lparr>combined_sentiments := [], combined_news_titles := []\<rparr>"

text \<open>
  \<^verbatim>\<open>if sentiment is not None:
      combined_sentiments.append(sentiment)
      combined_news_titles.extend(titles)\<close>
\<close>

fun add_source :: "'t agg_vars \<Rightarrow> 't sample \<Rightarrow> 't agg_vars" where
  "add_source st (None, titles) = st"
| "add_source st (Some sentiment, titles) =
     st\<lparr>combined_sentiments := combined_sentiments st @ [sentiment],
        combined_news_titles := combined_news_titles st @ titles\<rparr>"

text \<open>
  \<^verbatim>\<open>np.mean\<close> of a non-empty list of floats, in exact arithmetic: the sum divided
  by the number of elements. It is only called on a non-empty list.
\<close>

definition np_mean :: "real list \<Rightarrow> real" where
  "np_mean xs = sum_list xs / real (length xs)"

text \<open>
  \<^verbatim>\<open>overall_news_sentiment = None
  if combined_sentiments:
      overall_news_sentiment = np.mean(combined_sentiments)\<close>
\<close>

definition set_overall :: "'t agg_vars \<Rightarrow> 't agg_vars" where
  "set_overall st =
     (let st1 = st\<lparr>overall_news_sentiment := None\<rparr>
      in if combined_sentiments st1 \<noteq> []
         then st1\<lparr>overall_news_sentiment := Some (np_mean (combined_sentiments st1))\<rparr>
         else st1)"

text \<open>
  The web dashboard's de-duplication (\<^verbatim>\<open>stock_app.py\<close>, lines 227 to 231):
  \<^verbatim>\<open>seen_titles = set()
  unique_titles = [title for title in combined_news_titles
                   if not (title in seen_titles or seen_titles.add(title))]\<close>
  \<^verbatim>\<open>set.add\<close> returns \<^verbatim>\<open>None\<close>, so a title not yet seen is kept and recorded.
\<close>

fun unique_titles :: "'t set \<Rightarrow> 't list \<Rightarrow> 't list" where
  "unique_titles seen_titles [] = []"
| "unique_titles seen_titles (title # rest) =
     (if title \<in> seen_titles then unique_titles seen_titles rest
      else title # unique_titles (insert title seen_titles) rest)"

definition dedup_titles :: "'t agg_vars \<Rightarrow> 't agg_vars" where
  "dedup_titles st =
     (if combined_news_titles st \<noteq> []
      then st\<lparr>combined_news_titles := unique_titles {} (combined_news_titles st)\<rparr>
      else st)"

text \<open>
  The two blocks as the source has them, for its two sources each
  (\<^verbatim>\<open>desktop_stock_app.py\<close> lines 124 to 135, \<^verbatim>\<open>stock_app.py\<close> lines 216 to 235).
  The argument \<open>st\<close> is whatever the variables held before the block.
\<close>

definition desktop_block :: "'t agg_vars \<Rightarrow> 't sample \<Rightarrow> 't sample \<Rightarrow> 't agg_vars" where
  "desktop_block st newsapi rss =
     set_overall (add_source (add_source (init_lists st) newsapi) rss)"

definition web_block :: "'t agg_vars \<Rightarrow> 't sample \<Rightarrow> 't sample \<Rightarrow> 't agg_vars" where
  "web_block st newsapi gnews =
     set_overall (dedup_titles (add_source (add_source (init_lists st) newsapi) gnews))"

text \<open>
  The same steps over any sequence of samples: the source unrolls this loop for its two
  sources (lemmas \<open>desktop_block_run\<close> and \<open>web_block_run\<close> below).
\<close>

definition desktop_run :: "'t agg_vars \<Rightarrow> 't sample list \<Rightarrow> 't agg_vars" where
  "desktop_run st samples = set_overall (foldl add_source (init_lists st) samples)"

definition web_run :: "'t agg_vars \<Rightarrow> 't sample list \<Rightarrow> 't agg_vars" where
  "web_run st samples = set_overall (dedup_titles (foldl add_source (init_lists st) samples))"

text \<open>The variables before the first assignment, for evaluating a run.\<close>

definition entry_vars :: "'t agg_vars" where
  "entry_vars = \<lparr>combined_sentiments = [], combined_news_titles = [],
                 overall_news_sentiment = None\<rparr>"

text \<open>What the rest of the pipeline reads: the overall score and the titles.\<close>

definition desktop_aggregate :: "'t sample list \<Rightarrow> real option \<times> 't list" where
  "desktop_aggregate samples =
     (let st = desktop_run entry_vars samples
      in (overall_news_sentiment st, combined_news_titles st))"

definition web_aggregate :: "'t sample list \<Rightarrow> real option \<times> 't list" where
  "web_aggregate samples =
     (let st = web_run entry_vars samples
      in (overall_news_sentiment st, combined_news_titles st))"

subsection \<open>The aggregation as the specification words it\<close>

text \<open>The scores of the samples whose score is not null, one per sample, in order.\<close>

definition non_null_scores :: "'t sample list \<Rightarrow> real list" where
  "non_null_scores samples = List.map_filter fst samples"

text \<open>The titles of the samples whose score is not null, in order, repetitions kept.\<close>

definition contributed_titles :: "'t sample list \<Rightarrow> 't list" where
  "contributed_titles samples = concat (map snd (filter (\<lambda>s. fst s \<noteq> None) samples))"


subsection \<open>The mean in float64\<close>

text \<open>
  \<^verbatim>\<open>np.mean\<close> computes in IEEE 754 binary64. A finite float is a real number here, and
  every operation rounds its exact result to the nearest float, ties to the even
  significand. \<open>rne\<close> rounds a real to the nearest integer, ties to even.
\<close>

definition rne :: "real \<Rightarrow> int" where
  "rne x =
     (let f = \<lfloor>x\<rfloor>; d = x - of_int f
      in if d < 1 / 2 then f
         else if 1 / 2 < d then f + 1
         else if even f then f else f + 1)"

text \<open>
  The unit in the last place of the float nearest to a real: \<open>normalise\<close> scales
  \<open>m\<close> by powers of two, keeping \<open>m * u\<close> fixed, until \<open>2 ^ 52 \<le> \<bar>m\<bar> < 2 ^ 53\<close> or
  the smallest exponent of the format, \<open>- 1074\<close>, is reached. The first argument bounds
  the number of steps; the exponents of the format span fewer than 2200 values.
\<close>

fun normalise :: "nat \<Rightarrow> real \<Rightarrow> real \<Rightarrow> int \<Rightarrow> real \<times> real" where
  "normalise 0 m u e = (m, u)"
| "normalise (Suc k) m u e =
     (if 2 ^ 53 \<le> \<bar>m\<bar> then normalise k (m / 2) (u * 2) (e + 1)
      else if \<bar>m\<bar> < 2 ^ 52 \<and> - 1074 < e then normalise k (m * 2) (u / 2) (e - 1)
      else (m, u))"

text \<open>
  Rounding to float64. A result beyond the largest float would be an infinity; sentiment
  scores and their sums are far from it, and infinities are not modelled.
\<close>

definition round_f64 :: "real \<Rightarrow> real" where
  "round_f64 x = (case normalise 2200 x 1 0 of (m, u) \<Rightarrow> of_int (rne m) * u)"

text \<open>
  \<^verbatim>\<open>np.mean\<close> of a list of floats: numpy adds a list of fewer than eight elements from
  left to right, starting from zero, and divides the sum by the number of elements; each
  addition and the division round. A block has at most two scores. Lists of eight or more
  elements, which numpy adds in another order, are not needed and not modelled faithfully.
\<close>

definition np_mean_f64 :: "real list \<Rightarrow> real" where
  "np_mean_f64 xs =
     round_f64 (foldl (\<lambda>acc x. round_f64 (acc + x)) 0 xs / real (length xs))"

text \<open>The assignment of the overall score and the two blocks, with the float64 mean.\<close>

definition set_overall_f64 :: "'t agg_vars \<Rightarrow> 't agg_vars" where
  "set_overall_f64 st =
     (let st1 = st\<lparr>overall_news_sentiment := None\<rparr>
      in if combined_sentiments st1 \<noteq> []
         then st1\<lparr>overall_news_sentiment := Some (np_mean_f64 (combined_sentiments st1))\<rparr>
         else st1)"

definition desktop_block_f64 :: "'t agg_vars \<Rightarrow> 't sample \<Rightarrow> 't sample \<Rightarrow> 't agg_vars" where
  "desktop_block_f64 st newsapi rss =
     set_overall_f64 (add_source (add_source (init_lists st) newsapi) rss)"

definition web_block_f64 :: "'t agg_vars \<Rightarrow> 't sample \<Rightarrow> 't sample \<Rightarrow> 't agg_vars" where
  "web_block_f64 st newsapi gnews =
     set_overall_f64 (dedup_titles (add_source (add_source (init_lists st) newsapi) gnews))"

text \<open>The same steps over any sequence of samples, as for the exact mean.\<close>

definition desktop_run_f64 :: "'t agg_vars \<Rightarrow> 't sample list \<Rightarrow> 't agg_vars" where
  "desktop_run_f64 st samples = set_overall_f64 (foldl add_source (init_lists st) samples)"

definition web_run_f64 :: "'t agg_vars \<Rightarrow> 't sample list \<Rightarrow> 't agg_vars" where
  "web_run_f64 st samples =
     set_overall_f64 (dedup_titles (foldl add_source (init_lists st) samples))"

text \<open>A sample as a fetcher returns it: its score, if any, is a float.\<close>

definition f64_sample :: "'t sample \<Rightarrow> bool" where
  "f64_sample s = (case fst s of None \<Rightarrow> True | Some v \<Rightarrow> round_f64 v = v)"

subsection \<open>The titles shown\<close>

text \<open>
  \<^verbatim>\<open>list(set(combined_news_titles))[:5]\<close> (\<^verbatim>\<open>desktop_stock_app.py\<close> line 141,
  \<^verbatim>\<open>stock_app.py\<close> line 243). A Python set holds one copy of each element; the order
  in which it is listed is not specified. The model takes the distinct elements and lets
  the parameter \<open>hash_order\<close> arrange them; Python's order is some permutation.
\<close>

definition list_of_set :: "('t list \<Rightarrow> 't list) \<Rightarrow> 't list \<Rightarrow> 't list" where
  "list_of_set hash_order titles = hash_order (remdups titles)"

definition shown_titles :: "('t list \<Rightarrow> 't list) \<Rightarrow> 't list \<Rightarrow> 't list" where
  "shown_titles hash_order titles = take 5 (list_of_set hash_order titles)"

section \<open>Python strings\<close>

text \<open>
  A Python string is the list of its code points. The text of a literal of the source is
  ASCII, so its code points are the codes of its characters.
\<close>

type_synonym py_str = "nat list"

definition py_literal :: "string \<Rightarrow> py_str" where
  "py_literal s = map of_char s"

section \<open>The desktop NewsAPI fetch wrapper\<close>

text \<open>
  \<^verbatim>\<open>StockAnalyzerApp._fetch_news_from_newsapi_for_gui\<close>
  (\<^verbatim>\<open>desktop_stock_app.py\<close>, lines 201 to 241).
\<close>

text \<open>
  A key of a JSON dictionary: absent, present with \<^verbatim>\<open>null\<close>, or present with a
  string.
\<close>

datatype field = Missing | Null | Text py_str

text \<open>
  An exception is a value. \<^verbatim>\<open>NewsAPIException\<close> carries the error payload of the
  service, of which the handler reads the key \<^verbatim>\<open>'message'\<close>; any other subclass of
  \<^verbatim>\<open>Exception\<close> (a network error, \<^verbatim>\<open>KeyError\<close>, \<^verbatim>\<open>TypeError\<close>, an error of
  the window toolkit) is named by a label. Only subclasses of \<^verbatim>\<open>Exception\<close> are
  exceptions here, as they are all the handlers catch.
\<close>

datatype py_exception = NewsAPIException field | Exception string

datatype article = Article (article_title: field) (article_description: field)

text \<open>
  \<^verbatim>\<open>article.get(key)\<close> and \<^verbatim>\<open>article.get(key, default)\<close>; the result \<open>None\<close>
  is Python's \<^verbatim>\<open>None\<close>. The default only replaces an absent key.
\<close>

fun dict_get :: "field \<Rightarrow> py_str option" where
  "dict_get Missing = None"
| "dict_get Null = None"
| "dict_get (Text s) = Some s"

fun dict_get_default :: "field \<Rightarrow> py_str \<Rightarrow> py_str option" where
  "dict_get_default Missing fallback = Some fallback"
| "dict_get_default Null fallback = None"
| "dict_get_default (Text s) fallback = Some s"

text \<open>Truth value of an optional string: \<^verbatim>\<open>None\<close> and the empty string are false.\<close>

fun truthy :: "py_str option \<Rightarrow> bool" where
  "truthy None = False"
| "truthy (Some s) = (s \<noteq> [])"

text \<open>
  \<^verbatim>\<open>article.get('title', '') + " " + (article.get('description', '') or "")\<close>:
  adding a string to \<^verbatim>\<open>None\<close> raises \<^verbatim>\<open>TypeError\<close>.
\<close>

definition article_text :: "article \<Rightarrow> py_exception + py_str" where
  "article_text a =
     (case dict_get_default (article_title a) [] of
        None \<Rightarrow> Inl (Exception ''TypeError'')
      | Some t \<Rightarrow>
          Inr (t @ py_literal '' '' @
            (case dict_get_default (article_description a) [] of
               None \<Rightarrow> []
             | Some d \<Rightarrow> d)))"

text \<open>
  \<^verbatim>\<open>[analyze_sentiment(...) for article in all_articles
     if article.get('title') or article.get('description')]\<close>.
  The scorer \<^verbatim>\<open>analyze_sentiment\<close> belongs to the analysis library; it is a parameter
  and may raise. The first exception, in the order of the articles, ends the comprehension.
\<close>

fun article_sentiments ::
  "(py_str \<Rightarrow> py_exception + real) \<Rightarrow> article list \<Rightarrow> py_exception + real list" where
  "article_sentiments analyze_sentiment [] = Inr []"
| "article_sentiments analyze_sentiment (a # rest) =
     (if truthy (dict_get (article_title a)) \<or> truthy (dict_get (article_description a))
      then (case article_text a of
              Inl e \<Rightarrow> Inl e
            | Inr text \<Rightarrow>
                (case analyze_sentiment text of
                   Inl e \<Rightarrow> Inl e
                 | Inr v \<Rightarrow>
                     (case article_sentiments analyze_sentiment rest of
                        Inl e \<Rightarrow> Inl e
                      | Inr vs \<Rightarrow> Inr (v # vs))))
      else article_sentiments analyze_sentiment rest)"

text \<open>
  What \<^verbatim>\<open>get_everything\<close> returned: nothing or an empty dictionary (both false in
  Python), or a dictionary whose key \<^verbatim>\<open>'articles'\<close> is absent, null or a list.
\<close>

datatype articles_value = Articles_missing | Articles_null | Articles "article list"

datatype response = Falsy_response | Response articles_value

text \<open>
  The client, when there is one, is its \<^verbatim>\<open>get_everything\<close> as a function of the
  query. It returns a response or raises.
\<close>

type_synonym newsapi_client = "py_str \<Rightarrow> py_exception + response"

type_synonym news_result = "real option \<times> py_str option list"

text \<open>
  The body of the \<^verbatim>\<open>try\<close>. \<^verbatim>\<open>articles_response['articles']\<close> raises
  \<^verbatim>\<open>KeyError\<close> when the key is absent. The titles are
  \<^verbatim>\<open>article.get('title', 'No Title')\<close> of every article.
\<close>

definition newsapi_try_body ::
  "newsapi_client \<Rightarrow> (py_str \<Rightarrow> py_exception + real) \<Rightarrow> py_str
     \<Rightarrow> py_exception + news_result" where
  "newsapi_try_body get_everything analyze_sentiment ticker_symbol =
     (case get_everything ticker_symbol of
        Inl e \<Rightarrow> Inl e
      | Inr Falsy_response \<Rightarrow> Inr (None, [])
      | Inr (Response Articles_missing) \<Rightarrow> Inl (Exception ''KeyError'')
      | Inr (Response Articles_null) \<Rightarrow> Inr (None, [])
      | Inr (Response (Articles all_articles)) \<Rightarrow>
          (if all_articles = [] then Inr (None, [])
           else (case article_sentiments analyze_sentiment all_articles of
                   Inl e \<Rightarrow> Inl e
                 | Inr sentiments \<Rightarrow>
                     (if sentiments \<noteq> []
                      then Inr (Some (np_mean sentiments),
                                map (\<lambda>a. dict_get_default (article_title a) (py_literal ''No Title''))
                                  all_articles)
                      else Inr (None, [])))))"

text \<open>
  \<^verbatim>\<open>NewsAPIException.get_message\<close> of the client library:
  \<^verbatim>\<open>if self.exception["message"]: return self.exception["message"]\<close>.
  It raises \<^verbatim>\<open>KeyError\<close> when the payload has no such key, and returns \<^verbatim>\<open>None\<close>
  when the message is null or empty.
\<close>

fun get_message :: "field \<Rightarrow> py_exception + py_str option" where
  "get_message Missing = Inl (Exception ''KeyError'')"
| "get_message Null = Inr None"
| "get_message (Text s) = Inr (if s = [] then None else Some s)"

text \<open>How an f-string prints an optional string.\<close>

fun format_str :: "py_str option \<Rightarrow> py_str" where
  "format_str None = py_literal ''None''"
| "format_str (Some s) = s"

text \<open>
  The two handlers (lines 232 to 241). Each builds its message (for the second handler
  the text of the exception, here its label), shows it with
  \<^verbatim>\<open>messagebox.showerror\<close> and returns the sentinel. The dialog is a parameter: given
  the title and the message, it returns or raises. An exception raised inside a handler
  is not caught by the other handler, so it leaves the wrapper. The prints are not
  modelled.
\<close>

definition on_newsapi_exception ::
  "(py_str \<Rightarrow> py_str \<Rightarrow> py_exception + unit) \<Rightarrow> field \<Rightarrow> py_exception + news_result" where
  "on_newsapi_exception showerror payload =
     (case get_message payload of
        Inl e \<Rightarrow> Inl e
      | Inr message \<Rightarrow>
          (case showerror (py_literal ''NewsAPI Error'')
                  (py_literal ''NewsAPI Error: '' @ format_str message) of
             Inl e \<Rightarrow> Inl e
           | Inr _ \<Rightarrow> Inr (None, [])))"

definition on_other_exception ::
  "(py_str \<Rightarrow> py_str \<Rightarrow> py_exception + unit) \<Rightarrow> string \<Rightarrow> py_exception + news_result" where
  "on_other_exception showerror label =
     (case showerror (py_literal ''NewsAPI Error'')
             (py_literal ''An unexpected error occurred during NewsAPI fetch: ''
              @ py_literal label) of
        Inl e \<Rightarrow> Inl e
      | Inr _ \<Rightarrow> Inr (None, []))"

text \<open>
  The wrapper: the guard on the client, then the \<^verbatim>\<open>try\<close> with its two handlers.
  \<open>Inl\<close> in the result is an exception that leaves the wrapper.
\<close>

definition fetch_news_from_newsapi_for_gui ::
  "(py_str \<Rightarrow> py_str \<Rightarrow> py_exception + unit) \<Rightarrow> newsapi_client option
     \<Rightarrow> (py_str \<Rightarrow> py_exception + real) \<Rightarrow> py_str \<Rightarrow> py_exception + news_result" where
  "fetch_news_from_newsapi_for_gui showerror newsapi_client_gui analyze_sentiment ticker_symbol =
     (case newsapi_client_gui of
        None \<Rightarrow> Inr (None, [])
      | Some get_everything \<Rightarrow>
          (case newsapi_try_body get_everything analyze_sentiment ticker_symbol of
             Inr result \<Rightarrow> Inr result
           | Inl (NewsAPIException payload) \<Rightarrow> on_newsapi_exception showerror payload
           | Inl (Exception label) \<Rightarrow> on_other_exception showerror label))"

section \<open>The other news fetchers\<close>

text \<open>
  Modelled from the spec: the outcome of a news provider for one call, as sections 2, 4.3
  and 7 list them: a network or library error, a missing API key, an empty result, or a
  score with its titles.
\<close>

datatype 't provider_outcome =
  Provider_error string | Key_missing | No_articles | Scored real "'t list"

text \<open>
  Modelled from the spec: \<^verbatim>\<open>fetch_news\<close> of section 6, which stands for the fetchers
  that both front ends import from the analysis library and whose code is missing
  (\<^verbatim>\<open>fetch_news_sentiment_from_rss\<close>, \<^verbatim>\<open>fetch_news_sentiment_from_newsapi\<close>,
  \<^verbatim>\<open>fetch_news_sentiment_from_gnews\<close>). By sections 2 and 4.3 a fetcher returns the
  score with the titles, and normalises errors, missing keys and empty results to the
  sentinel \<open>(None, [])\<close> instead of raising.
\<close>

definition fetch_news :: "'t provider_outcome \<Rightarrow> 't sample" where
  "fetch_news outcome =
     (case outcome of
        Scored score titles \<Rightarrow> (Some score, titles)
      | Provider_error description \<Rightarrow> (None, [])
      | Key_missing \<Rightarrow> (None, [])
      | No_articles \<Rightarrow> (None, []))"

section \<open>The signal deriver\<close>

text \<open>
  \<^verbatim>\<open>generate_signal\<close> is imported by both front ends from the analysis library
  (\<^verbatim>\<open>stock.py\<close>, \<^verbatim>\<open>improved_stock_analysis_script.py\<close>), which is not among
  the sources; the front ends only call it on the impact that \<^verbatim>\<open>assess_impact\<close>
  returned and show the result.
\<close>

text \<open>
  Modelled from the spec: the impact of section 3, with its event tags, its short-term
  impact level and its optional long-term one. The vocabulary of impact levels is owned by
  the library, so the type \<open>'l\<close> of levels is a parameter.
\<close>

record 'l event_impact =
  events :: "string list"
  short_term :: 'l
  long_term :: "'l option"

text \<open>
  Modelled from the spec: \<^verbatim>\<open>generate_signal\<close>, the signal deriver of section 4.2, whose
  code is missing. The specification describes it as a pure mapping from the short-term
  impact tag to a signal label, given by an explicit table from impact levels to signals,
  where an impact level that the table does not recognise maps to a designated neutral
  signal instead of raising. The table and the neutral signal are owned by the library,
  so they are parameters, as is the type \<open>'s\<close> of signals. \<open>Inl\<close> in the result
  would be an exception.
\<close>

definition generate_signal ::
  "('l \<times> 's) list \<Rightarrow> 's \<Rightarrow> 'l event_impact \<Rightarrow> py_exception + 's" where
  "generate_signal signal_table neutral_signal impact =
     (case map_of signal_table (short_term impact) of
        Some signal \<Rightarrow> Inr signal
      | None \<Rightarrow> Inr neutral_signal)"


section \<open>The two front ends\<close>

subsection \<open>Strings\<close>

text \<open>
  \<^verbatim>\<open>str.strip()\<close> removes the leading and trailing whitespace characters and
  \<^verbatim>\<open>str.upper()\<close> replaces each character by its full uppercase mapping, which may be
  more than one character. Which characters are whitespace and what the uppercase mapping
  of a character is comes from the Unicode database of the Python runtime; it is a
  parameter.
\<close>

record unicode_db =
  isspace :: "nat \<Rightarrow> bool"
  toupper_full :: "nat \<Rightarrow> nat list"

definition strip :: "unicode_db \<Rightarrow> py_str \<Rightarrow> py_str" where
  "strip db s = rev (dropWhile (isspace db) (rev (dropWhile (isspace db) s)))"

definition upper :: "unicode_db \<Rightarrow> py_str \<Rightarrow> py_str" where
  "upper db s = concat (map (toupper_full db) s)"

definition endswith :: "py_str \<Rightarrow> py_str \<Rightarrow> bool" where
  "endswith s sfx = (length sfx \<le> length s \<and> drop (length s - length sfx) s = sfx)"

text \<open>
  A database for evaluating runs: the whitespace characters of CPython 3
  (U+0009 to U+000D, U+001C to U+0020, U+0085, U+00A0, U+1680, U+2000 to U+200A, U+2028,
  U+2029, U+202F, U+205F, U+3000), and of the uppercase mapping only the letters a to z
  and U+00DF, which becomes SS; the rest of that table is not reproduced, every other
  character is left as it is.
\<close>

definition example_db :: unicode_db where
  "example_db =
     \<lparr>isspace = (\<lambda>c. (9 \<le> c \<and> c \<le> 13) \<or> (28 \<le> c \<and> c \<le> 32) \<or> c = 133 \<or> c = 160
                     \<or> c = 5760 \<or> (8192 \<le> c \<and> c \<le> 8202) \<or> c = 8232 \<or> c = 8233
                     \<or> c = 8239 \<or> c = 8287 \<or> c = 12288),
      toupper_full = (\<lambda>c. if 97 \<le> c \<and> c \<le> 122 then [c - 32]
                            else if c = 223 then [83, 83] else [c])\<rparr>"

subsection \<open>What a run does\<close>

text \<open>
  A run is observed through the warning it shows and the calls it makes into the analysis
  library and into the fetchers: \<open>Invoke f t\<close> is a call of \<open>f\<close> with the ticker
  argument \<open>t\<close>, \<open>Compute f\<close> a call of a function that takes no ticker. The other
  writes to the window or page are not modelled.
\<close>

datatype event = Warning string | Invoke string py_str | Compute string

text \<open>
  What \<^verbatim>\<open>get_stock_data\<close> returned: an error, no history (\<^verbatim>\<open>None\<close> or an empty
  frame), or a history with the current price, which may be \<^verbatim>\<open>None\<close>.
\<close>

datatype stock_data = Data_error string | No_history | History "real option"

text \<open>
  What a run of the desktop window gets from outside. The NewsAPI wrapper returns a sample
  or raises; the RSS fetcher returns a sample. \<open>deepseek_available\<close> is
  \<^verbatim>\<open>DEEPSEEK_API_KEY and summarize_news_with_deepseek\<close>.
\<close>

record 't desktop_env =
  get_stock_data :: "py_str \<Rightarrow> stock_data"
  newsapi_for_gui :: "py_str \<Rightarrow> py_exception + 't sample"
  news_sentiment_from_rss :: "py_str \<Rightarrow> 't sample"
  deepseek_available :: bool

text \<open>
  \<^verbatim>\<open>StockAnalyzerApp.analyze_stock_action\<close> (\<^verbatim>\<open>desktop_stock_app.py\<close>, lines 84
  to 199). The result is the events of the run and how it ended: with an exception that
  left the method, or normally, with the overall score and the titles when the aggregation
  was reached. Line 104 formats the current price with \<^verbatim>\<open>:.2f\<close>, which raises
  \<^verbatim>\<open>TypeError\<close> when the price is \<^verbatim>\<open>None\<close>; the call of the wrapper at line 119
  is not inside a \<^verbatim>\<open>try\<close>.
\<close>

definition analyze_stock_action ::
  "unicode_db \<Rightarrow> 't desktop_env \<Rightarrow> py_str
     \<Rightarrow> event list \<times> (py_exception + (real option \<times> 't list) option)" where
  "analyze_stock_action db env entry_text =
     (let ticker_symbol = upper db (strip db entry_text)
      in if ticker_symbol = []
         then ([Warning ''Please enter a stock ticker symbol.''], Inr None)
         else
           (case get_stock_data env ticker_symbol of
              Data_error error \<Rightarrow> ([Invoke ''get_stock_data'' ticker_symbol], Inr None)
            | No_history \<Rightarrow> ([Invoke ''get_stock_data'' ticker_symbol], Inr None)
            | History None \<Rightarrow>
                ([Invoke ''get_stock_data'' ticker_symbol], Inl (Exception ''TypeError''))
            | History (Some current_price) \<Rightarrow>
                (case newsapi_for_gui env ticker_symbol of
                   Inl e \<Rightarrow>
                     ([Invoke ''get_stock_data'' ticker_symbol,
                       Compute ''calculate_technical_indicators'',
                       Invoke ''_fetch_news_from_newsapi_for_gui'' ticker_symbol], Inl e)
                 | Inr newsapi \<Rightarrow>
                     (let rss = news_sentiment_from_rss env ticker_symbol;
                          st = desktop_block entry_vars newsapi rss
                      in ([Invoke ''get_stock_data'' ticker_symbol,
                           Compute ''calculate_technical_indicators'',
                           Invoke ''_fetch_news_from_newsapi_for_gui'' ticker_symbol,
                           Invoke ''fetch_news_sentiment_from_rss'' ticker_symbol,
                           Compute ''analyze_stock'',
                           Invoke ''enhanced_analysis'' ticker_symbol]
                          @ (if deepseek_available env \<and> combined_news_titles st \<noteq> []
                             then [Invoke ''summarize_news_with_deepseek'' ticker_symbol]
                             else [])
                          @ [Compute ''extract_financial_events'', Compute ''analyze_sentiment'',
                             Compute ''assess_impact'', Compute ''generate_signal''],
                          Inr (Some (overall_news_sentiment st, combined_news_titles st)))))))"

text \<open>
  The web dashboard. The two keys are \<^verbatim>\<open>os.environ.get(...)\<close>: \<open>None\<close> when the
  variable is not set. \<open>web_stock_data_ok t\<close> says that \<^verbatim>\<open>get_stock_data(t)\<close>
  returned no error and a non-empty history (the dashboard shows a missing price as
  \<^verbatim>\<open>N/A\<close>); \<open>talib_present\<close> says that the import of \<^verbatim>\<open>talib\<close> succeeded.
\<close>

record web_env =
  APP_NEWS_API_KEY :: "py_str option"
  APP_GNEWS_API_KEY :: "py_str option"
  web_stock_data_ok :: "py_str \<Rightarrow> bool"
  talib_present :: bool
  news_sentiment_from_newsapi :: "py_str \<Rightarrow> py_str sample"
  news_sentiment_from_gnews :: "py_str \<Rightarrow> py_str sample"

text \<open>
  The fetch stage (\<^verbatim>\<open>stock_app.py\<close>, lines 203 to 214): the events, the NewsAPI
  sample and the GNews sample.
\<close>

definition web_fetch_news ::
  "web_env \<Rightarrow> py_str \<Rightarrow> event list \<times> py_str sample \<times> py_str sample" where
  "web_fetch_news env ticker_symbol_processed =
     (let (newsapi_calls, newsapi) =
            (if truthy (APP_NEWS_API_KEY env)
             then ([Invoke ''fetch_news_sentiment_from_newsapi'' ticker_symbol_processed],
                   news_sentiment_from_newsapi env ticker_symbol_processed)
             else ([], (None, [])));
          (gnews_calls, gnews) =
            (if endswith ticker_symbol_processed (py_literal ''.NS'')
             then (if truthy (APP_GNEWS_API_KEY env)
                   then ([Invoke ''fetch_news_sentiment_from_gnews'' ticker_symbol_processed],
                         news_sentiment_from_gnews env ticker_symbol_processed)
                   else ([], (None, [])))
             else ([], (None, [])))
      in (newsapi_calls @ gnews_calls, newsapi, gnews))"

text \<open>
  The snippet of the event analysis (lines 282 to 294): the first title, or the sample
  text when there is no title or the first title is empty. The analysis runs when the
  snippet is not blank.
\<close>

definition sample_news :: "py_str \<Rightarrow> py_str" where
  "sample_news ticker_symbol_processed =
     [10] @ replicate 20 32 @ ticker_symbol_processed
     @ py_literal '' reported mixed Q2 results. While revenue saw a slight increase,''
     @ [10] @ replicate 20 32
     @ py_literal ''net profit declined due to rising operational costs. The company announced a''
     @ [10] @ replicate 20 32
     @ py_literal ''new strategic partnership aimed at expanding into new markets and is also''
     @ [10] @ replicate 20 32
     @ py_literal ''exploring cost-cutting measures.''
     @ [10] @ replicate 20 32"

definition news_item_for_event_analysis :: "py_str \<Rightarrow> py_str list \<Rightarrow> py_str" where
  "news_item_for_event_analysis ticker_symbol_processed titles =
     (case titles of
        [] \<Rightarrow> sample_news ticker_symbol_processed
      | first # _ \<Rightarrow> if first = [] then sample_news ticker_symbol_processed else first)"

text \<open>The block under the button \<^verbatim>\<open>Analyze Stock\<close> (\<^verbatim>\<open>stock_app.py\<close>, lines 139 to 336).\<close>

definition web_analyze ::
  "unicode_db \<Rightarrow> web_env \<Rightarrow> py_str
     \<Rightarrow> event list \<times> (real option \<times> py_str list) option" where
  "web_analyze db env ticker_input_raw =
     (if strip db ticker_input_raw = []
      then ([Warning ''Please enter a stock ticker symbol.''], None)
      else
        (let ticker_symbol_processed = upper db (strip db ticker_input_raw)
         in if \<not> web_stock_data_ok env ticker_symbol_processed
            then ([Invoke ''get_stock_data'' ticker_symbol_processed], None)
            else
              (let (news_calls, newsapi, gnews) = web_fetch_news env ticker_symbol_processed;
                   st = web_block entry_vars newsapi gnews;
                   item = news_item_for_event_analysis ticker_symbol_processed
                            (combined_news_titles st)
               in ([Invoke ''get_stock_data'' ticker_symbol_processed,
                    Invoke ''create_price_volume_chart'' ticker_symbol_processed]
                   @ (if talib_present env
                      then [Invoke ''create_rsi_chart'' ticker_symbol_processed,
                            Invoke ''create_macd_chart'' ticker_symbol_processed]
                      else [])
                   @ [Compute ''calculate_technical_indicators'']
                   @ news_calls
                   @ [Compute ''analyze_stock'',
                      Invoke ''enhanced_analysis'' ticker_symbol_processed]
                   @ (if item \<noteq> [] \<and> strip db item \<noteq> []
                      then [Compute ''extract_financial_events'', Compute ''analyze_sentiment'',
                            Compute ''assess_impact'', Compute ''generate_signal'']
                      else []),
                   Some (overall_news_sentiment st, combined_news_titles st)))))"

text \<open>Two concrete environments, for evaluating runs.\<close>

definition example_desktop_env :: "py_str desktop_env" where
  "example_desktop_env =
     \<lparr>get_stock_data = (\<lambda>t. History (Some 150)),
      newsapi_for_gui = (\<lambda>t. Inr (Some 0.6, [py_literal ''a''])),
      news_sentiment_from_rss = (\<lambda>t. (None, [])), deepseek_available = False\<rparr>"

definition example_web_env :: web_env where
  "example_web_env =
     \<lparr>APP_NEWS_API_KEY = None, APP_GNEWS_API_KEY = Some (py_literal ''key''),
      web_stock_data_ok = (\<lambda>t. True), talib_present = False,
      news_sentiment_from_newsapi = (\<lambda>t. (Some 0.5, [py_literal ''a''])),
      news_sentiment_from_gnews = (\<lambda>t. (Some 0.2, [py_literal ''g'']))\<rparr>"

section \<open>Properties of the aggregation\<close>

lemma desktop_block_run: "desktop_block st newsapi rss = desktop_run st [newsapi, rss]"
  by (simp add: desktop_block_def desktop_run_def)

lemma web_block_run: "web_block st newsapi gnews = web_run st [newsapi, gnews]"
  by (simp add: web_block_def web_run_def)

lemma add_source_sentiments:
  "combined_sentiments (add_source st s) =
     combined_sentiments st @ (case fst s of None \<Rightarrow> [] | Some v \<Rightarrow> [v])"
  by (cases s; cases "fst s") auto

lemma add_source_titles:
  "combined_news_titles (add_source st s) =
     combined_news_titles st @ (if fst s = None then [] else snd s)"
  by (cases s; cases "fst s") auto

lemma foldl_add_source_sentiments:
  "combined_sentiments (foldl add_source st samples) =
     combined_sentiments st @ non_null_scores samples"
proof (induction samples arbitrary: st)
  case Nil
  show ?case by (simp add: non_null_scores_def)
next
  case (Cons s samples)
  show ?case
    using Cons.IH [of "add_source st s"]
    by (cases "fst s")
       (simp_all add: add_source_sentiments non_null_scores_def)
qed

lemma foldl_add_source_titles:
  "combined_news_titles (foldl add_source st samples) =
     combined_news_titles st @ contributed_titles samples"
proof (induction samples arbitrary: st)
  case Nil
  show ?case by (simp add: contributed_titles_def)
next
  case (Cons s samples)
  show ?case
    using Cons.IH [of "add_source st s"]
    by (simp add: add_source_titles contributed_titles_def)
qed

lemma foldl_add_source_overall:
  "overall_news_sentiment (foldl add_source st samples) = overall_news_sentiment st"
proof (induction samples arbitrary: st)
  case Nil
  show ?case by simp
next
  case (Cons s samples)
  have "overall_news_sentiment (add_source st s) = overall_news_sentiment st"
    by (cases s; cases "fst s") auto
  with Cons.IH [of "add_source st s"] show ?case by simp
qed

lemma set_overall_sentiment:
  "overall_news_sentiment (set_overall st) =
     (if combined_sentiments st = [] then None else Some (np_mean (combined_sentiments st)))"
  by (simp add: set_overall_def Let_def)

lemma set_overall_titles: "combined_news_titles (set_overall st) = combined_news_titles st"
  by (simp add: set_overall_def Let_def)

lemma set_overall_sentiments: "combined_sentiments (set_overall st) = combined_sentiments st"
  by (simp add: set_overall_def Let_def)

lemma dedup_titles_sentiments: "combined_sentiments (dedup_titles st) = combined_sentiments st"
  by (simp add: dedup_titles_def)

lemma dedup_titles_titles:
  "combined_news_titles (dedup_titles st) = unique_titles {} (combined_news_titles st)"
  by (simp add: dedup_titles_def)

lemma desktop_run_sentiments:
  "combined_sentiments (desktop_run st samples) = non_null_scores samples"
  by (simp add: desktop_run_def set_overall_sentiments foldl_add_source_sentiments init_lists_def)

lemma web_run_sentiments:
  "combined_sentiments (web_run st samples) = non_null_scores samples"
  by (simp add: web_run_def set_overall_sentiments dedup_titles_sentiments
      foldl_add_source_sentiments init_lists_def)

lemma desktop_run_titles:
  "combined_news_titles (desktop_run st samples) = contributed_titles samples"
  by (simp add: desktop_run_def set_overall_titles foldl_add_source_titles init_lists_def)

lemma web_run_titles:
  "combined_news_titles (web_run st samples) = unique_titles {} (contributed_titles samples)"
  by (simp add: web_run_def set_overall_titles dedup_titles_titles foldl_add_source_titles
      init_lists_def)

lemma desktop_run_overall:
  "overall_news_sentiment (desktop_run st samples) =
     (if non_null_scores samples = [] then None else Some (np_mean (non_null_scores samples)))"
  by (simp add: desktop_run_def set_overall_sentiment foldl_add_source_sentiments init_lists_def)

lemma web_run_overall:
  "overall_news_sentiment (web_run st samples) =
     (if non_null_scores samples = [] then None else Some (np_mean (non_null_scores samples)))"
  by (simp add: web_run_def set_overall_sentiment dedup_titles_sentiments
      foldl_add_source_sentiments init_lists_def)

lemma desktop_aggregate_eq:
  "desktop_aggregate samples =
     (if non_null_scores samples = [] then None else Some (np_mean (non_null_scores samples)),
      contributed_titles samples)"
  by (simp add: desktop_aggregate_def Let_def desktop_run_overall desktop_run_titles)

lemma web_aggregate_eq:
  "web_aggregate samples =
     (if non_null_scores samples = [] then None else Some (np_mean (non_null_scores samples)),
      unique_titles {} (contributed_titles samples))"
  by (simp add: web_aggregate_def Let_def web_run_overall web_run_titles)

lemma length_non_null_scores:
  "length (non_null_scores samples) = length (filter (\<lambda>s. fst s \<noteq> None) samples)"
  by (induction samples) (auto simp: non_null_scores_def split: option.splits)

lemma non_null_scores_drop_titles:
  "non_null_scores (map (\<lambda>s. (fst s, [])) samples) = non_null_scores samples"
  by (induction samples) (auto simp: non_null_scores_def split: option.splits)

lemma no_scores_iff:
  "(non_null_scores samples = []) = (filter (\<lambda>s. fst s \<noteq> None) samples = [])"
  using length_non_null_scores [of samples] by (metis length_0_conv)

lemma aggregate_example:
  "desktop_aggregate [(Some 0.5, [''a'']), (Some (- 0.5), [''b''])] = (Some 0, [''a'', ''b''])"
  "web_aggregate [(Some 0.5, [''a'']), (Some (- 0.5), [''b''])] = (Some 0, [''a'', ''b''])"
  by code_simp+

text \<open>
  C1. For every sequence of samples and in both front ends, the overall sentiment is
  \<open>None\<close> exactly when no sample has a score. Otherwise it is the sum of the scores of
  the scored samples divided by the number of scored samples: one scalar per sample,
  nothing clipped or rescaled afterwards, and the titles do not matter (dropping every
  title leaves the score as it is). The empty sequence gives \<open>None\<close> and no titles.
\<close>

theorem overall_sentiment_is_mean:
  "(fst (desktop_aggregate samples) = None) = (filter (\<lambda>s. fst s \<noteq> None) samples = [])
   \<and> (fst (web_aggregate samples) = None) = (filter (\<lambda>s. fst s \<noteq> None) samples = [])
   \<and> fst (desktop_aggregate samples) =
       (if filter (\<lambda>s. fst s \<noteq> None) samples = [] then None
        else Some (sum_list (non_null_scores samples)
                   / real (length (filter (\<lambda>s. fst s \<noteq> None) samples))))
   \<and> fst (web_aggregate samples) = fst (desktop_aggregate samples)
   \<and> fst (desktop_aggregate (map (\<lambda>s. (fst s, [])) samples)) = fst (desktop_aggregate samples)
   \<and> desktop_aggregate ([] :: 't sample list) = (None, [])
   \<and> web_aggregate ([] :: 't sample list) = (None, [])"
proof -
  let ?scored = "filter (\<lambda>s. fst s \<noteq> None) samples"
  have a: "fst (desktop_aggregate samples) =
       (if ?scored = [] then None
        else Some (sum_list (non_null_scores samples) / real (length ?scored)))"
    unfolding desktop_aggregate_eq no_scores_iff np_mean_def length_non_null_scores
    by (simp only: fst_conv)
  have b: "fst (web_aggregate samples) = fst (desktop_aggregate samples)"
    by (simp add: desktop_aggregate_eq web_aggregate_eq)
  have a1: "(fst (desktop_aggregate samples) = None) = (?scored = [])"
    by (cases "?scored = []") (simp_all add: a)
  from a1 b have b1: "(fst (web_aggregate samples) = None) = (?scored = [])"
    by (simp only:)
  have c: "fst (desktop_aggregate (map (\<lambda>s. (fst s, [])) samples)) = fst (desktop_aggregate samples)"
    by (simp add: desktop_aggregate_eq non_null_scores_drop_titles)
  have d: "desktop_aggregate ([] :: 't sample list) = (None, [])"
    by (simp add: desktop_aggregate_eq non_null_scores_def contributed_titles_def)
  have e: "web_aggregate ([] :: 't sample list) = (None, [])"
    by (simp add: web_aggregate_eq non_null_scores_def contributed_titles_def)
  show ?thesis
    by (intro conjI) (rule a1 b1 a b c d e)+
qed

lemma non_null_scores_append:
  "non_null_scores (xs @ ys) = non_null_scores xs @ non_null_scores ys"
  by (simp add: non_null_scores_def List.map_filter_def)

lemma contributed_titles_append:
  "contributed_titles (xs @ ys) = contributed_titles xs @ contributed_titles ys"
  by (simp add: contributed_titles_def)

lemma null_sample_scores: "non_null_scores ((None, titles) # samples) = non_null_scores samples"
  by (simp add: non_null_scores_def)

lemma null_sample_titles:
  "contributed_titles ((None, titles) # samples) = contributed_titles samples"
  by (simp add: contributed_titles_def)

text \<open>
  C2. A sample whose sentiment is null is skipped entirely, wherever it stands in the
  sequence and whatever titles it carries: removing it changes neither the overall score
  nor the combined titles, in either front end. Aggregating
  \<^verbatim>\<open>[(None, []), (0.8, ["x"])]\<close> gives the score 0.8 and the titles \<^verbatim>\<open>["x"]\<close>.
\<close>

theorem null_sample_skipped:
  "desktop_aggregate (before @ (None, titles) # after) = desktop_aggregate (before @ after)
   \<and> web_aggregate (before @ (None, titles) # after) = web_aggregate (before @ after)
   \<and> desktop_aggregate [(None, []), (Some 0.8, [''x''])] = (Some 0.8, [''x''])
   \<and> web_aggregate [(None, []), (Some 0.8, [''x''])] = (Some 0.8, [''x''])"
proof -
  have a: "desktop_aggregate (before @ (None, titles) # after) = desktop_aggregate (before @ after)"
    by (simp only: desktop_aggregate_eq non_null_scores_append contributed_titles_append
        null_sample_scores null_sample_titles)
  have b: "web_aggregate (before @ (None, titles) # after) = web_aggregate (before @ after)"
    by (simp only: web_aggregate_eq non_null_scores_append contributed_titles_append
        null_sample_scores null_sample_titles)
  have c: "desktop_aggregate [(None, []), (Some 0.8, [''x''])] = (Some 0.8, [''x''])"
    by code_simp
  have d: "web_aggregate [(None, []), (Some 0.8, [''x''])] = (Some 0.8, [''x''])"
    by code_simp
  show ?thesis by (intro conjI) (rule a b c d)+
qed

subsection \<open>Titles\<close>

lemma unique_titles_set: "set (unique_titles seen ts) = set ts - seen"
  by (induction ts arbitrary: seen) auto

lemma unique_titles_distinct: "distinct (unique_titles seen ts)"
  by (induction ts arbitrary: seen) (auto simp: unique_titles_set)

lemma unique_titles_count:
  "count_list (unique_titles seen ts) t = (if t \<in> set ts - seen then 1 else 0)"
  by (induction ts arbitrary: seen) auto

lemma remdups_snoc: "remdups (ys @ [x]) = filter (\<lambda>y. y \<noteq> x) (remdups ys) @ [x]"
  by (induction ys) auto

text \<open>The comprehension keeps the first occurrence of each title, in the order of the list.\<close>

lemma unique_titles_first_seen:
  "unique_titles seen ts = rev (remdups (rev (filter (\<lambda>t. t \<notin> seen) ts)))"
proof (induction ts arbitrary: seen)
  case Nil
  show ?case by simp
next
  case (Cons t ts)
  have f: "filter (\<lambda>u. u \<notin> insert t seen) ts =
           filter (\<lambda>u. u \<noteq> t) (filter (\<lambda>u. u \<notin> seen) ts)"
    by (induction ts) auto
  show ?case
    by (simp add: Cons.IH f remdups_snoc rev_filter remdups_filter conj_commute)
qed

lemma permuted_distinct:
  "mset ys = mset xs \<Longrightarrow> distinct ys = distinct xs"
  by (metis mset_eq_imp_distinct_iff)

lemma list_of_set_distinct:
  "(\<And>ys. mset (hash_order ys) = mset ys) \<Longrightarrow> distinct (list_of_set hash_order titles)"
  by (simp add: list_of_set_def permuted_distinct [of "hash_order (remdups titles)" "remdups titles"])

lemma list_of_set_set:
  "(\<And>ys. mset (hash_order ys) = mset ys) \<Longrightarrow> set (list_of_set hash_order titles) = set titles"
  by (metis list_of_set_def mset_eq_setD set_remdups)

lemma count_list_remdups: "count_list (remdups xs) t = (if t \<in> set xs then 1 else 0)"
  by (induction xs) auto

lemma list_of_set_count:
  assumes "\<And>ys. mset (hash_order ys) = mset ys"
  shows "count_list (list_of_set hash_order titles) t = (if t \<in> set titles then 1 else 0)"
proof -
  have "count_list (hash_order (remdups titles)) t
          = count (mset (hash_order (remdups titles))) t"
    by (simp only: count_mset)
  also have "\<dots> = count (mset (remdups titles)) t"
    by (simp only: assms)
  also have "\<dots> = count_list (remdups titles) t"
    by (simp only: count_mset)
  also have "\<dots> = (if t \<in> set titles then 1 else 0)"
    by (rule count_list_remdups)
  finally show ?thesis by (simp only: list_of_set_def)
qed

lemma shown_titles_distinct:
  "(\<And>ys. mset (hash_order ys) = mset ys) \<Longrightarrow> distinct (shown_titles hash_order titles)"
  by (simp add: shown_titles_def list_of_set_distinct)

lemma shown_titles_subset:
  "(\<And>ys. mset (hash_order ys) = mset ys) \<Longrightarrow>
   set (shown_titles hash_order titles) \<subseteq> set titles"
  using list_of_set_set [of hash_order titles] set_take_subset [of 5 "list_of_set hash_order titles"]
  by (simp add: shown_titles_def)

text \<open>
  The desktop window does not de-duplicate the list \<^verbatim>\<open>combined_news_titles\<close> itself,
  which is what \<^verbatim>\<open>enhanced_analysis\<close> receives.
\<close>

lemma desktop_list_keeps_repetitions:
  "snd (desktop_aggregate [(Some 0.2, [''Title A'', ''Title A'']), (Some 0.4, [''Title A''])])
     = [''Title A'', ''Title A'', ''Title A'']"
  by code_simp

text \<open>
  C3. For every sequence of samples the aggregated title collection holds exactly one
  copy of each distinct title of the scored samples, however often the title is repeated
  within one source or across sources. In the web dashboard this is the title list after
  the de-duplication of lines 227 to 231, which also keeps the order of first appearance.
  In the desktop window it is the set built at line 141, in whatever order Python lists
  it, and so are the at most five titles shown. (The desktop list itself, from which the
  set is built, keeps the repetitions: lemma \<open>desktop_list_keeps_repetitions\<close>.)
\<close>

theorem titles_deduplicated:
  assumes "\<And>ys. mset (hash_order ys) = mset ys"
  shows "distinct (snd (web_aggregate samples))
   \<and> set (snd (web_aggregate samples)) = set (contributed_titles samples)
   \<and> count_list (snd (web_aggregate samples)) t =
       (if t \<in> set (contributed_titles samples) then 1 else 0)
   \<and> snd (web_aggregate samples) = rev (remdups (rev (contributed_titles samples)))
   \<and> snd (web_aggregate [(Some 0.2, [''Title A'', ''Title A'']), (Some 0.4, [''Title A''])])
       = [''Title A'']
   \<and> distinct (list_of_set hash_order (snd (desktop_aggregate samples)))
   \<and> set (list_of_set hash_order (snd (desktop_aggregate samples)))
       = set (contributed_titles samples)
   \<and> count_list (list_of_set hash_order (snd (desktop_aggregate samples))) t =
       (if t \<in> set (contributed_titles samples) then 1 else 0)
   \<and> distinct (shown_titles hash_order (snd (desktop_aggregate samples)))
   \<and> set (shown_titles hash_order (snd (desktop_aggregate samples)))
       \<subseteq> set (contributed_titles samples)"
proof -
  have e: "snd (web_aggregate [(Some 0.2, [''Title A'', ''Title A'']), (Some 0.4, [''Title A''])])
       = [''Title A'']"
    by code_simp
  have f: "snd (web_aggregate samples) = rev (remdups (rev (contributed_titles samples)))"
    by (simp add: web_aggregate_eq unique_titles_first_seen)
  have a: "distinct (snd (web_aggregate samples))"
    by (simp add: web_aggregate_eq unique_titles_distinct)
  have b: "set (snd (web_aggregate samples)) = set (contributed_titles samples)"
    by (simp add: web_aggregate_eq unique_titles_set)
  have c: "count_list (snd (web_aggregate samples)) t =
       (if t \<in> set (contributed_titles samples) then 1 else 0)"
    by (simp add: web_aggregate_eq unique_titles_count)
  have d: "snd (desktop_aggregate samples) = contributed_titles samples"
    by (simp add: desktop_aggregate_eq)
  have g: "distinct (list_of_set hash_order (snd (desktop_aggregate samples)))"
    using assms by (rule list_of_set_distinct)
  have h: "set (list_of_set hash_order (snd (desktop_aggregate samples)))
       = set (contributed_titles samples)"
    using list_of_set_set [of hash_order, OF assms] by (simp only: d)
  have i: "count_list (list_of_set hash_order (snd (desktop_aggregate samples))) t =
       (if t \<in> set (contributed_titles samples) then 1 else 0)"
    using list_of_set_count [of hash_order, OF assms] by (simp only: d)
  have j: "distinct (shown_titles hash_order (snd (desktop_aggregate samples)))"
    using assms by (rule shown_titles_distinct)
  have k: "set (shown_titles hash_order (snd (desktop_aggregate samples)))
       \<subseteq> set (contributed_titles samples)"
    using shown_titles_subset [of hash_order, OF assms] by (simp only: d)
  show ?thesis
    by (intro conjI) (rule a b c e f g h i j k)+
qed

theorem titles_deduplicated_witness:
  "(\<forall>ys :: string list. mset (rev ys) = mset ys)
   \<and> list_of_set rev (snd (desktop_aggregate
        [(Some 0.2, [''Title A'', ''Title A'']), (Some 0.4, [''Title A''])])) = [''Title A'']
   \<and> count_list (list_of_set rev (snd (desktop_aggregate
        [(Some 0.2, [''Title A'', ''Title A'']), (Some 0.4, [''Title A''])]))) ''Title A'' = 1
   \<and> snd (web_aggregate [(Some 0.2, [''Title A'', ''Title A'']), (Some 0.4, [''Title A''])])
       = [''Title A'']"
proof -
  have p: "mset (rev ys) = mset ys" for ys :: "string list" by simp
  have m: "''Title A'' \<in> set (contributed_titles
      [(Some 0.2, [''Title A'', ''Title A'']), (Some 0.4, [''Title A''])])"
    by code_simp
  note t = titles_deduplicated [of rev
      "[(Some 0.2, [''Title A'', ''Title A'']), (Some 0.4, [''Title A''])]" "''Title A''", OF p]
  have l: "list_of_set rev (snd (desktop_aggregate
        [(Some 0.2, [''Title A'', ''Title A'']), (Some 0.4, [''Title A''])])) = [''Title A'']"
    by code_simp
  from t m have c: "count_list (list_of_set rev (snd (desktop_aggregate
        [(Some 0.2, [''Title A'', ''Title A'']), (Some 0.4, [''Title A''])]))) ''Title A'' = 1"
    by (simp only: if_True)
  from t have w: "snd (web_aggregate
      [(Some 0.2, [''Title A'', ''Title A'']), (Some 0.4, [''Title A''])]) = [''Title A'']"
    by blast
  show ?thesis using p l c w by blast
qed

subsection \<open>Order of the samples\<close>

lemma mset_non_null_scores:
  "mset (non_null_scores samples) =
     image_mset (the \<circ> fst) (filter_mset (\<lambda>s. fst s \<noteq> None) (mset samples))"
  by (simp add: non_null_scores_def List.map_filter_def)

lemma np_mean_mset: "mset xs = mset ys \<Longrightarrow> np_mean xs = np_mean ys"
  by (metis np_mean_def sum_mset_sum_list size_mset)

lemma Nil_mset_cong: "mset xs = mset ys \<Longrightarrow> (xs = []) = (ys = [])"
  by (metis mset_zero_iff)

text \<open>
  With the exact mean the overall score does not depend on the order of the samples, for
  sequences of any length.
\<close>

lemma exact_mean_order_insensitive:
  assumes "mset samples = mset samples'"
  shows "fst (desktop_aggregate samples) = fst (desktop_aggregate samples')
       \<and> fst (web_aggregate samples) = fst (web_aggregate samples')"
proof -
  from assms have m: "mset (non_null_scores samples) = mset (non_null_scores samples')"
    by (simp only: mset_non_null_scores)
  have "np_mean (non_null_scores samples) = np_mean (non_null_scores samples')"
    using m by (rule np_mean_mset)
  moreover have "(non_null_scores samples = []) = (non_null_scores samples' = [])"
    using m by (rule Nil_mset_cong)
  ultimately show ?thesis
    by (simp add: desktop_aggregate_eq web_aggregate_eq)
qed

subsection \<open>Order of the samples in float64\<close>

lemma normalise_in_range:
  "2 ^ 52 \<le> \<bar>m\<bar> \<Longrightarrow> \<bar>m\<bar> < 2 ^ 53 \<Longrightarrow> normalise k m u e = (m, u)"
  by (cases k) simp_all

lemma normalise_scale_up:
  "\<bar>m\<bar> * 2 ^ n < 2 ^ 53 \<Longrightarrow> - 1074 \<le> e - int n \<Longrightarrow>
   normalise (k + n) m u e = normalise k (m * 2 ^ n) (u / 2 ^ n) (e - int n)"
proof (induction n arbitrary: m u e)
  case 0
  show ?case by simp
next
  case (Suc n)
  have pos: "(0::real) < 2 ^ n" by simp
  from Suc.prems(1) have b: "\<bar>m * 2\<bar> * 2 ^ n < 2 ^ 53"
    by (simp add: abs_mult mult.assoc)
  from Suc.prems(1) have "\<bar>m\<bar> * 2 ^ n < 2 ^ 52" by simp
  moreover have "\<bar>m\<bar> * 1 \<le> \<bar>m\<bar> * 2 ^ n"
    by (rule mult_left_mono) simp_all
  ultimately have small: "\<bar>m\<bar> < 2 ^ 52" by simp
  from Suc.prems(2) have e: "- 1074 < e" "- 1074 \<le> (e - 1) - int n" by simp_all
  have "normalise (k + Suc n) m u e = normalise (k + n) (m * 2) (u / 2) (e - 1)"
    using small e(1) by simp
  also have "\<dots> = normalise k (m * 2 * 2 ^ n) (u / 2 / 2 ^ n) (e - 1 - int n)"
    using Suc.IH [OF b e(2)] .
  finally show ?case by (simp add: mult.assoc algebra_simps)
qed

lemma round_f64_normal:
  assumes "2 ^ 52 \<le> \<bar>x\<bar> * 2 ^ n" and "\<bar>x\<bar> * 2 ^ n < 2 ^ 53" and "n \<le> 1074"
  shows "round_f64 x = of_int (rne (x * 2 ^ n)) / 2 ^ n"
proof -
  have "normalise 2200 x 1 0 = normalise ((2200 - n) + n) x 1 0"
    using assms(3) by simp
  also have "\<dots> = normalise (2200 - n) (x * 2 ^ n) (1 / 2 ^ n) (0 - int n)"
    using assms(2,3) by (intro normalise_scale_up) simp_all
  also have "\<dots> = (x * 2 ^ n, 1 / 2 ^ n)"
    using assms(1,2) by (intro normalise_in_range) (simp_all add: abs_mult)
  finally show ?thesis by (simp add: round_f64_def)
qed

lemma f64_tenth: "round_f64 0.1 = 3602879701896397 / 2 ^ 55"
  using round_f64_normal [of "0.1" 56] by (simp add: rne_def)

lemma round_f64_zero: "round_f64 0 = 0"
proof -
  have "snd (normalise k 0 u e) = snd (normalise k 0 u e) \<and> fst (normalise k 0 u e) = 0" for k u e
    by (induction k arbitrary: u e) auto
  then show ?thesis by (simp add: round_f64_def case_prod_beta rne_def)
qed

lemma f64_fifth: "round_f64 0.2 = 3602879701896397 / 2 ^ 54"
  using round_f64_normal [of "0.2" 55] by (simp add: rne_def)

lemma f64_three_tenths: "round_f64 0.3 = 5404319552844595 / 2 ^ 54"
  using round_f64_normal [of "0.3" 54] by (simp add: rne_def)

lemma f64_tenth_fixed: "round_f64 (3602879701896397 / 2 ^ 55) = 3602879701896397 / 2 ^ 55"
  using round_f64_normal [of "3602879701896397 / 2 ^ 55" 56] by (simp add: rne_def)

lemma f64_three_tenths_fixed: "round_f64 (5404319552844595 / 2 ^ 54) = 5404319552844595 / 2 ^ 54"
  using round_f64_normal [of "5404319552844595 / 2 ^ 54" 54] by (simp add: rne_def)

text \<open>0.1 + 0.2 is 0.30000000000000004, and adding 0.3 gives 0.6000000000000001.\<close>

lemma f64_add_1: "round_f64 (3602879701896397 / 2 ^ 55 + 3602879701896397 / 2 ^ 54) = 1351079888211149 / 2 ^ 52"
  using round_f64_normal [of "3602879701896397 / 2 ^ 55 + 3602879701896397 / 2 ^ 54" 54] by (simp add: rne_def)

lemma f64_add_2: "round_f64 (1351079888211149 / 2 ^ 52 + 5404319552844595 / 2 ^ 54) = 1351079888211149 / 2 ^ 51"
  using round_f64_normal [of "1351079888211149 / 2 ^ 52 + 5404319552844595 / 2 ^ 54" 53] by (simp add: rne_def)

lemma f64_div_1: "round_f64 (1351079888211149 / 2 ^ 51 / 3) = 7205759403792795 / 2 ^ 55"
  using round_f64_normal [of "1351079888211149 / 2 ^ 51 / 3" 55] by (simp add: rne_def)

text \<open>0.3 + 0.2 is 0.5, and adding 0.1 gives 0.6.\<close>

lemma f64_add_3: "round_f64 (5404319552844595 / 2 ^ 54 + 3602879701896397 / 2 ^ 54) = 1 / 2"
  using round_f64_normal [of "5404319552844595 / 2 ^ 54 + 3602879701896397 / 2 ^ 54" 53] by (simp add: rne_def)

lemma f64_add_4: "round_f64 (1 / 2 + 3602879701896397 / 2 ^ 55) = 5404319552844595 / 2 ^ 53"
  using round_f64_normal [of "1 / 2 + 3602879701896397 / 2 ^ 55" 53] by (simp add: rne_def)

lemma f64_div_2: "round_f64 (5404319552844595 / 2 ^ 53 / 3) = 7205759403792793 / 2 ^ 55"
  using round_f64_normal [of "5404319552844595 / 2 ^ 53 / 3" 55] by (simp add: rne_def)

lemma mean_forward:
  "np_mean_f64 [round_f64 0.1, round_f64 0.2, round_f64 0.3] = 7205759403792795 / 2 ^ 55"
proof -
  have len: "real (length [x, y, z]) = 3" for x y z :: real by simp
  show ?thesis
    unfolding np_mean_f64_def foldl_Cons foldl_Nil len
    by (simp only: f64_tenth f64_fifth f64_three_tenths add_0 f64_tenth_fixed
        f64_add_1 f64_add_2 f64_div_1)
qed

lemma mean_backward:
  "np_mean_f64 [round_f64 0.3, round_f64 0.2, round_f64 0.1] = 7205759403792793 / 2 ^ 55"
proof -
  have len: "real (length [x, y, z]) = 3" for x y z :: real by simp
  show ?thesis
    unfolding np_mean_f64_def foldl_Cons foldl_Nil len
    by (simp only: f64_tenth f64_fifth f64_three_tenths add_0 f64_three_tenths_fixed
        f64_add_3 f64_add_4 f64_div_2)
qed

lemma set_overall_f64_sentiment:
  "overall_news_sentiment (set_overall_f64 st) =
     (if combined_sentiments st = [] then None
      else Some (np_mean_f64 (combined_sentiments st)))"
  by (simp add: set_overall_f64_def Let_def)

lemma desktop_run_f64_overall:
  "overall_news_sentiment (desktop_run_f64 st samples) =
     (if non_null_scores samples = [] then None
      else Some (np_mean_f64 (non_null_scores samples)))"
  by (simp add: desktop_run_f64_def set_overall_f64_sentiment foldl_add_source_sentiments
      init_lists_def)

lemma web_run_f64_overall:
  "overall_news_sentiment (web_run_f64 st samples) =
     (if non_null_scores samples = [] then None
      else Some (np_mean_f64 (non_null_scores samples)))"
  by (simp add: web_run_f64_def set_overall_f64_sentiment dedup_titles_sentiments
      foldl_add_source_sentiments init_lists_def)

lemma desktop_block_f64_run:
  "desktop_block_f64 st newsapi rss = desktop_run_f64 st [newsapi, rss]"
  by (simp add: desktop_block_f64_def desktop_run_f64_def)

lemma web_block_f64_run: "web_block_f64 st newsapi gnews = web_run_f64 st [newsapi, gnews]"
  by (simp add: web_block_f64_def web_run_f64_def)

lemma non_null_scores_three:
  "non_null_scores [(Some a, ta), (Some b, tb), (Some c, tc)] = [a, b, c]"
  by (simp add: non_null_scores_def)

text \<open>
  C6, as the claim states it, fails for the float64 mean that the code computes: float
  addition is not associative. The scores 0.1, 0.2, 0.3 average to
  0.20000000000000004, and in the reverse order to 0.19999999999999998.
\<close>

theorem float_mean_order_matters:
  "mset [(Some (round_f64 0.1), [''a'']), (Some (round_f64 0.2), [''b'']),
         (Some (round_f64 0.3), [''c''])]
     = mset [(Some (round_f64 0.3), [''c'']), (Some (round_f64 0.2), [''b'']),
             (Some (round_f64 0.1), [''a''])]
   \<and> overall_news_sentiment (desktop_run_f64 entry_vars
         [(Some (round_f64 0.1), [''a'']), (Some (round_f64 0.2), [''b'']),
          (Some (round_f64 0.3), [''c''])]) = Some (7205759403792795 / 2 ^ 55)
   \<and> overall_news_sentiment (desktop_run_f64 entry_vars
         [(Some (round_f64 0.3), [''c'']), (Some (round_f64 0.2), [''b'']),
          (Some (round_f64 0.1), [''a''])]) = Some (7205759403792793 / 2 ^ 55)
   \<and> overall_news_sentiment (web_run_f64 entry_vars
         [(Some (round_f64 0.1), [''a'']), (Some (round_f64 0.2), [''b'']),
          (Some (round_f64 0.3), [''c''])]) = Some (7205759403792795 / 2 ^ 55)
   \<and> overall_news_sentiment (web_run_f64 entry_vars
         [(Some (round_f64 0.3), [''c'']), (Some (round_f64 0.2), [''b'']),
          (Some (round_f64 0.1), [''a''])]) = Some (7205759403792793 / 2 ^ 55)
   \<and> (7205759403792795 / 2 ^ 55 :: real) \<noteq> 7205759403792793 / 2 ^ 55"
proof -
  have p: "mset [(Some (round_f64 0.1), [''a'']), (Some (round_f64 0.2), [''b'']),
         (Some (round_f64 0.3), [''c''])]
     = mset [(Some (round_f64 0.3), [''c'']), (Some (round_f64 0.2), [''b'']),
             (Some (round_f64 0.1), [''a''])]"
    by (simp add: add.commute add.left_commute)
  have ne: "(7205759403792795 / 2 ^ 55 :: real) \<noteq> 7205759403792793 / 2 ^ 55" by simp
  have ne3: "[a, b, c] \<noteq> []" for a b c :: real by simp
  show ?thesis
    by (intro conjI)
       (rule p ne | simp only: desktop_run_f64_overall web_run_f64_overall non_null_scores_three
          ne3 if_False mean_forward mean_backward)+
qed

lemma np_mean_f64_single: "round_f64 a = a \<Longrightarrow> np_mean_f64 [a] = a"
  by (simp add: np_mean_f64_def)

lemma np_mean_f64_pair:
  "round_f64 a = a \<Longrightarrow> np_mean_f64 [a, b] = round_f64 (round_f64 (a + b) / 2)"
  by (simp add: np_mean_f64_def)

lemma np_mean_f64_swap:
  "round_f64 a = a \<Longrightarrow> round_f64 b = b \<Longrightarrow> np_mean_f64 [a, b] = np_mean_f64 [b, a]"
  by (simp add: np_mean_f64_pair add.commute)

lemma non_null_scores_swap:
  "f64_sample x \<Longrightarrow> f64_sample y \<Longrightarrow>
   (non_null_scores [x, y] = []) = (non_null_scores [y, x] = [])
   \<and> np_mean_f64 (non_null_scores [x, y]) = np_mean_f64 (non_null_scores [y, x])"
  by (cases x; cases y; cases "fst x"; cases "fst y")
     (auto simp: non_null_scores_def f64_sample_def np_mean_f64_swap)

text \<open>
  C6, amended. For the two samples that each front end aggregates, the overall score does
  not depend on their order: swapping the two sources gives the same float64 score,
  whether both, one or none of them has a score.
\<close>

theorem two_samples_order_insensitive:
  assumes "f64_sample x" and "f64_sample y"
  shows "overall_news_sentiment (desktop_block_f64 st x y)
           = overall_news_sentiment (desktop_block_f64 st y x)
       \<and> overall_news_sentiment (web_block_f64 st x y)
           = overall_news_sentiment (web_block_f64 st y x)"
  using non_null_scores_swap [OF assms]
  by (simp add: desktop_block_f64_run web_block_f64_run desktop_run_f64_overall
      web_run_f64_overall)

theorem two_samples_order_insensitive_witness:
  "f64_sample (Some (round_f64 0.1), [''a'']) \<and> f64_sample (Some (round_f64 0.3), [''b''])
   \<and> overall_news_sentiment (desktop_block_f64 entry_vars
         (Some (round_f64 0.1), [''a'']) (Some (round_f64 0.3), [''b'']))
       = overall_news_sentiment (desktop_block_f64 entry_vars
         (Some (round_f64 0.3), [''b'']) (Some (round_f64 0.1), [''a'']))
   \<and> overall_news_sentiment (web_block_f64 entry_vars
         (Some (round_f64 0.1), [''a'']) (Some (round_f64 0.3), [''b'']))
       = overall_news_sentiment (web_block_f64 entry_vars
         (Some (round_f64 0.3), [''b'']) (Some (round_f64 0.1), [''a'']))"
proof -
  have a: "f64_sample (Some (round_f64 0.1), [''a''])"
    by (simp only: f64_sample_def fst_conv option.case f64_tenth f64_tenth_fixed)
  have b: "f64_sample (Some (round_f64 0.3), [''b''])"
    by (simp only: f64_sample_def fst_conv option.case f64_three_tenths f64_three_tenths_fixed)
  show ?thesis
    using a b two_samples_order_insensitive [OF a b, of entry_vars] by blast
qed

subsection \<open>No state between runs\<close>

text \<open>
  C7. The aggregation reads nothing it has not assigned itself: whatever the three
  variables held before, the block leaves the same scores, titles and overall score for
  the same samples. So a second run on the same sequence, started from what the first run
  left behind, ends in the very state the first run ended in. This holds for the folded
  runs and for the two-source blocks of the source.
\<close>

theorem aggregation_stateless:
  "desktop_run st samples = desktop_run st' samples
   \<and> web_run st samples = web_run st' samples
   \<and> desktop_run (desktop_run st samples) samples = desktop_run st samples
   \<and> web_run (web_run st samples) samples = web_run st samples
   \<and> desktop_block st newsapi rss = desktop_block st' newsapi rss
   \<and> web_block st newsapi gnews = web_block st' newsapi gnews"
proof -
  have a: "desktop_run s1 xs = desktop_run s2 xs" for s1 s2 :: "'a agg_vars" and xs
    by (rule agg_vars.equality)
       (simp_all add: desktop_run_sentiments desktop_run_titles desktop_run_overall)
  have b: "web_run s1 xs = web_run s2 xs" for s1 s2 :: "'a agg_vars" and xs
    by (rule agg_vars.equality)
       (simp_all add: web_run_sentiments web_run_titles web_run_overall)
  show ?thesis
    by (intro conjI) (rule a b | simp only: desktop_block_run web_block_run)+
qed


section \<open>Properties of the news fetchers\<close>

lemma try_body_pairing:
  "newsapi_try_body c a t = Inr (None, titles) \<Longrightarrow> titles = []"
  by (auto simp: newsapi_try_body_def split: sum.splits response.splits articles_value.splits if_splits)

lemma handlers_sentinel:
  "on_newsapi_exception showerror payload = Inr r \<Longrightarrow> r = (None, [])"
  "on_other_exception showerror description = Inr r \<Longrightarrow> r = (None, [])"
  by (auto simp: on_newsapi_exception_def on_other_exception_def split: sum.splits)

lemma wrapper_result_cases:
  assumes "fetch_news_from_newsapi_for_gui showerror client analyze ticker = Inr r"
  shows "r = (None, []) \<or> (\<exists>v titles. r = (Some v, titles))"
proof (cases client)
  case None
  with assms show ?thesis by (simp add: fetch_news_from_newsapi_for_gui_def)
next
  case (Some c)
  show ?thesis
  proof (cases "newsapi_try_body c analyze ticker")
    case (Inl e)
    with Some assms show ?thesis
      by (cases e) (auto simp: fetch_news_from_newsapi_for_gui_def dest: handlers_sentinel)
  next
    case (Inr r')
    with Some assms have r: "r' = r" by (simp add: fetch_news_from_newsapi_for_gui_def)
    obtain s ts where st: "r = (s, ts)" by (cases r)
    show ?thesis
    proof (cases s)
      case None
      with Inr r st have "ts = []" using try_body_pairing by blast
      with None st show ?thesis by simp
    next
      case (Some v)
      with st show ?thesis by simp
    qed
  qed
qed

text \<open>
  C5. Whenever the desktop NewsAPI fetch wrapper returns, it returns either exactly
  \<open>(None, [])\<close> or a score that is not null with its list of titles: a null score is
  never paired with a non-empty title list, on any return path and whatever the client,
  the scorer and the dialog do. The fetchers of the analysis library, as the
  specification describes them, return such pairs as well.
\<close>

theorem fetchers_pairing:
  "(fetch_news_from_newsapi_for_gui showerror client analyze ticker = Inr (None, titles)
      \<longrightarrow> titles = [])
   \<and> (fetch_news_from_newsapi_for_gui showerror client analyze ticker = Inr result
      \<longrightarrow> result = (None, []) \<or> (\<exists>v ts. result = (Some v, ts)))
   \<and> (fetch_news outcome = (None, titles') \<longrightarrow> titles' = [])
   \<and> (fetch_news outcome = (None, []) \<or> (\<exists>v ts. fetch_news outcome = (Some v, ts)))"
proof -
  have a: "fetch_news_from_newsapi_for_gui showerror client analyze ticker = Inr (None, titles)
      \<longrightarrow> titles = []"
    using wrapper_result_cases [of showerror client analyze ticker "(None, titles)"] by auto
  have b: "fetch_news_from_newsapi_for_gui showerror client analyze ticker = Inr result
      \<longrightarrow> result = (None, []) \<or> (\<exists>v ts. result = (Some v, ts))"
    using wrapper_result_cases [of showerror client analyze ticker result] by blast
  have c: "fetch_news outcome = (None, titles') \<longrightarrow> titles' = []"
    by (cases outcome) (simp_all add: fetch_news_def)
  have d: "fetch_news outcome = (None, []) \<or> (\<exists>v ts. fetch_news outcome = (Some v, ts))"
    by (cases outcome) (simp_all add: fetch_news_def)
  show ?thesis by (intro conjI) (rule a b c d)+
qed

theorem fetchers_pairing_witness:
  "fetch_news_from_newsapi_for_gui (\<lambda>title message. Inr ())
       (Some (\<lambda>q. Inr (Response (Articles [Article Missing Missing]))))
       (\<lambda>text. Inr 0) (py_literal ''AAPL'') = Inr (None, [])
   \<and> fetch_news_from_newsapi_for_gui (\<lambda>title message. Inr ())
       (Some (\<lambda>q. Inr (Response (Articles [Article (Text (py_literal ''Apple up'')) Null, Article Null Null]))))
       (\<lambda>text. Inr (1 / 2)) (py_literal ''AAPL'') = Inr (Some (1 / 2), [Some (py_literal ''Apple up''), None])
   \<and> fetch_news (Key_missing :: py_str provider_outcome) = (None, [])
   \<and> fetch_news (Scored (1 / 2) [py_literal ''Apple up''])
       = (Some (1 / 2), [py_literal ''Apple up''])"
proof -
  have a: "fetch_news_from_newsapi_for_gui (\<lambda>title message. Inr ())
       (Some (\<lambda>q. Inr (Response (Articles [Article Missing Missing]))))
       (\<lambda>text. Inr 0) (py_literal ''AAPL'') = Inr (None, [])"
    by (simp add: fetch_news_from_newsapi_for_gui_def newsapi_try_body_def)
  have b: "fetch_news_from_newsapi_for_gui (\<lambda>title message. Inr ())
       (Some (\<lambda>q. Inr (Response (Articles [Article (Text (py_literal ''Apple up'')) Null, Article Null Null]))))
       (\<lambda>text. Inr (1 / 2)) (py_literal ''AAPL'') = Inr (Some (1 / 2), [Some (py_literal ''Apple up''), None])"
    by (simp add: fetch_news_from_newsapi_for_gui_def newsapi_try_body_def article_text_def
        np_mean_def py_literal_def)
  have c: "fetch_news (Key_missing :: py_str provider_outcome) = (None, [])"
    by (simp add: fetch_news_def)
  have d: "fetch_news (Scored (1 / 2) [py_literal ''Apple up''])
       = (Some (1 / 2), [py_literal ''Apple up''])"
    by (simp add: fetch_news_def)
  note t1 = fetchers_pairing [of "\<lambda>title message. Inr ()"
      "Some (\<lambda>q. Inr (Response (Articles [Article Missing Missing])))"
      "\<lambda>text. Inr 0" "py_literal ''AAPL''" "[]" "(None, [])" "Key_missing :: py_str provider_outcome" "[]"]
  from t1 a c show ?thesis using b d by blast
qed

text \<open>
  C4 asks that no exception leaves the wrapper. The wrapper does not achieve it: when
  \<^verbatim>\<open>get_everything\<close> raises a \<^verbatim>\<open>NewsAPIException\<close> whose payload has no key
  \<^verbatim>\<open>'message'\<close>, the handler's call of \<^verbatim>\<open>e.get_message()\<close> at line 233 raises
  \<^verbatim>\<open>KeyError\<close> inside the \<^verbatim>\<open>except\<close> clause, and that exception leaves the
  wrapper.
\<close>

theorem newsapi_wrapper_raises:
  "fetch_news_from_newsapi_for_gui (\<lambda>title message. Inr ())
       (Some (\<lambda>q. Inl (NewsAPIException Missing))) (\<lambda>text. Inr 0) (py_literal ''AAPL'')
     = Inl (Exception ''KeyError'')"
  by (simp add: fetch_news_from_newsapi_for_gui_def newsapi_try_body_def on_newsapi_exception_def)

text \<open>
  When the dialog returns and no \<^verbatim>\<open>NewsAPIException\<close> without a message arises, the
  wrapper returns.
\<close>

lemma wrapper_returns_when_handlers_do:
  assumes "\<And>title message. showerror title message = Inr ()"
    and "\<And>get_everything. client = Some get_everything \<Longrightarrow>
           newsapi_try_body get_everything analyze ticker \<noteq> Inl (NewsAPIException Missing)"
  shows "\<exists>result. fetch_news_from_newsapi_for_gui showerror client analyze ticker = Inr result"
proof (cases client)
  case None
  then show ?thesis by (simp add: fetch_news_from_newsapi_for_gui_def)
next
  case (Some c)
  show ?thesis
  proof (cases "newsapi_try_body c analyze ticker")
    case (Inr r)
    with Some show ?thesis by (simp add: fetch_news_from_newsapi_for_gui_def)
  next
    case (Inl e)
    show ?thesis
    proof (cases e)
      case (Exception d)
      with Inl Some show ?thesis
        by (simp add: fetch_news_from_newsapi_for_gui_def on_other_exception_def assms(1))
    next
      case (NewsAPIException payload)
      with Inl assms(2) [OF Some] have "payload \<noteq> Missing" by auto
      with NewsAPIException Inl Some show ?thesis
        by (cases payload)
           (simp_all add: fetch_news_from_newsapi_for_gui_def on_newsapi_exception_def assms(1))
    qed
  qed
qed

section \<open>Properties of the signal deriver\<close>

text \<open>
  C8. The signal deriver returns a signal for every impact, whatever its short-term tag:
  it never raises. A tag that the table does not recognise gives the designated neutral
  signal; a tag of the table gives the table's signal.
\<close>

theorem generate_signal_total:
  "(\<exists>signal. generate_signal signal_table neutral_signal impact = Inr signal)
   \<and> (map_of signal_table (short_term impact) = None \<longrightarrow>
        generate_signal signal_table neutral_signal impact = Inr neutral_signal)
   \<and> (map_of signal_table (short_term impact) = Some signal' \<longrightarrow>
        generate_signal signal_table neutral_signal impact = Inr signal')"
  by (cases "map_of signal_table (short_term impact)") (simp_all add: generate_signal_def)

theorem generate_signal_total_witness:
  "map_of [(''positive'', ''BUY''), (''negative'', ''SELL'')] ''unrecognized'' = None
   \<and> generate_signal [(''positive'', ''BUY''), (''negative'', ''SELL'')] ''HOLD''
        \<lparr>events = [], short_term = ''unrecognized'', long_term = None\<rparr> = Inr ''HOLD''
   \<and> map_of [(''positive'', ''BUY''), (''negative'', ''SELL'')] ''negative'' = Some ''SELL''
   \<and> generate_signal [(''positive'', ''BUY''), (''negative'', ''SELL'')] ''HOLD''
        \<lparr>events = [''lawsuit''], short_term = ''negative'', long_term = None\<rparr> = Inr ''SELL''"
  using generate_signal_total [of "[(''positive'', ''BUY''), (''negative'', ''SELL'')]" "''HOLD''"
      "\<lparr>events = [], short_term = ''unrecognized'', long_term = None\<rparr>"]
    generate_signal_total [of "[(''positive'', ''BUY''), (''negative'', ''SELL'')]" "''HOLD''"
      "\<lparr>events = [''lawsuit''], short_term = ''negative'', long_term = None\<rparr>" "''SELL''"]
  by simp


section \<open>Properties of the two front ends\<close>

lemma truthy_set: "truthy k \<Longrightarrow> k \<noteq> None"
  by (cases k) simp_all

lemma web_fetch_news_calls:
  "fst (web_fetch_news env t) =
     (if truthy (APP_NEWS_API_KEY env) then [Invoke ''fetch_news_sentiment_from_newsapi'' t] else [])
     @ (if endswith t (py_literal ''.NS'') \<and> truthy (APP_GNEWS_API_KEY env)
        then [Invoke ''fetch_news_sentiment_from_gnews'' t] else [])"
  by (simp add: web_fetch_news_def)

lemma web_fetch_news_newsapi:
  "fst (snd (web_fetch_news env t)) =
     (if truthy (APP_NEWS_API_KEY env) then news_sentiment_from_newsapi env t else (None, []))"
  by (simp add: web_fetch_news_def)

lemma web_fetch_news_gnews:
  "snd (snd (web_fetch_news env t)) =
     (if endswith t (py_literal ''.NS'') \<and> truthy (APP_GNEWS_API_KEY env)
      then news_sentiment_from_gnews env t else (None, []))"
  by (simp add: web_fetch_news_def)

lemma upper_Nil: "upper db [] = []"
  by (simp add: upper_def)

lemma upper_not_Nil: "upper db s \<noteq> [] \<Longrightarrow> s \<noteq> []"
  by (auto simp: upper_def)

lemma upper_Nil_iff: "(\<forall>c. toupper_full db c \<noteq> []) \<Longrightarrow> (upper db s = []) = (s = [])"
  by (cases s) (simp_all add: upper_def)

lemma web_analyze_blank:
  "strip db raw = [] \<Longrightarrow>
     web_analyze db env raw = ([Warning ''Please enter a stock ticker symbol.''], None)"
  by (simp add: web_analyze_def)

lemma desktop_blank:
  "strip db raw = [] \<Longrightarrow>
     analyze_stock_action db env raw
       = ([Warning ''Please enter a stock ticker symbol.''], Inr None)"
  by (simp add: analyze_stock_action_def upper_def)

lemma web_analyze_events:
  "strip db raw \<noteq> [] \<Longrightarrow> ev \<in> set (fst (web_analyze db env raw)) \<Longrightarrow>
   (\<exists>f. ev = Invoke f (upper db (strip db raw))) \<or> (\<exists>f. ev = Compute f)"
  by (auto simp: web_analyze_def Let_def case_prod_beta web_fetch_news_calls split: if_splits)

lemma web_gnews_invoked:
  "Invoke ''fetch_news_sentiment_from_gnews'' t \<in> set (fst (web_analyze db env raw)) \<Longrightarrow>
   t = upper db (strip db raw) \<and> endswith (upper db (strip db raw)) (py_literal ''.NS'')
   \<and> truthy (APP_GNEWS_API_KEY env)"
  by (auto simp: web_analyze_def Let_def case_prod_beta web_fetch_news_calls split: if_splits)

lemma web_newsapi_invoked:
  "Invoke ''fetch_news_sentiment_from_newsapi'' t \<in> set (fst (web_analyze db env raw)) \<Longrightarrow>
   t = upper db (strip db raw) \<and> truthy (APP_NEWS_API_KEY env)"
  by (auto simp: web_analyze_def Let_def case_prod_beta web_fetch_news_calls split: if_splits)

lemma web_block_sentinel:
  "web_block st newsapi (None, []) = web_run st [newsapi]"
  "web_block st (None, []) gnews = web_run st [gnews]"
  by (simp_all add: web_block_def web_run_def)

text \<open>
  C9. In the web dashboard the GNews fetcher is called exactly when the processed ticker
  ends with \<^verbatim>\<open>.NS\<close> and \<^verbatim>\<open>GNEWS_API_KEY\<close> has a non-empty value, hence only
  when the variable is set; when the ticker does not end with \<^verbatim>\<open>.NS\<close> or the
  variable is not set, the GNews sample is the sentinel \<open>(None, [])\<close>, and an
  aggregation with the sentinel is the aggregation of the other sample alone. The same
  holds for the NewsAPI fetcher and \<^verbatim>\<open>NEWS_API_KEY\<close>. In a whole run, a call of
  either fetcher has the processed ticker as its argument and implies these conditions.
\<close>

theorem news_fetchers_gated:
  "(Invoke ''fetch_news_sentiment_from_gnews'' t \<in> set (fst (web_fetch_news env t)))
      = (endswith t (py_literal ''.NS'') \<and> truthy (APP_GNEWS_API_KEY env))
   \<and> (truthy (APP_GNEWS_API_KEY env) \<longrightarrow> APP_GNEWS_API_KEY env \<noteq> None)
   \<and> (\<not> (endswith t (py_literal ''.NS'') \<and> APP_GNEWS_API_KEY env \<noteq> None) \<longrightarrow>
        snd (snd (web_fetch_news env t)) = (None, []))
   \<and> web_block st newsapi (None, []) = web_run st [newsapi]
   \<and> (Invoke ''fetch_news_sentiment_from_newsapi'' t \<in> set (fst (web_fetch_news env t)))
      = truthy (APP_NEWS_API_KEY env)
   \<and> (truthy (APP_NEWS_API_KEY env) \<longrightarrow> APP_NEWS_API_KEY env \<noteq> None)
   \<and> (APP_NEWS_API_KEY env = None \<longrightarrow> fst (snd (web_fetch_news env t)) = (None, []))
   \<and> web_block st (None, []) gnews = web_run st [gnews]
   \<and> (Invoke ''fetch_news_sentiment_from_gnews'' t' \<in> set (fst (web_analyze db env raw)) \<longrightarrow>
        t' = upper db (strip db raw) \<and> endswith (upper db (strip db raw)) (py_literal ''.NS'')
        \<and> APP_GNEWS_API_KEY env \<noteq> None)
   \<and> (Invoke ''fetch_news_sentiment_from_newsapi'' t' \<in> set (fst (web_analyze db env raw)) \<longrightarrow>
        t' = upper db (strip db raw) \<and> APP_NEWS_API_KEY env \<noteq> None)"
proof -
  have a: "(Invoke ''fetch_news_sentiment_from_gnews'' t \<in> set (fst (web_fetch_news env t)))
      = (endswith t (py_literal ''.NS'') \<and> truthy (APP_GNEWS_API_KEY env))"
    by (simp add: web_fetch_news_calls)
  have b: "truthy (APP_GNEWS_API_KEY env) \<longrightarrow> APP_GNEWS_API_KEY env \<noteq> None"
    using truthy_set by blast
  have c: "\<not> (endswith t (py_literal ''.NS'') \<and> APP_GNEWS_API_KEY env \<noteq> None) \<longrightarrow>
        snd (snd (web_fetch_news env t)) = (None, [])"
    using truthy_set [of "APP_GNEWS_API_KEY env"] by (auto simp: web_fetch_news_gnews)
  have d: "(Invoke ''fetch_news_sentiment_from_newsapi'' t \<in> set (fst (web_fetch_news env t)))
      = truthy (APP_NEWS_API_KEY env)"
    by (simp add: web_fetch_news_calls)
  have e: "truthy (APP_NEWS_API_KEY env) \<longrightarrow> APP_NEWS_API_KEY env \<noteq> None"
    using truthy_set by blast
  have f: "APP_NEWS_API_KEY env = None \<longrightarrow> fst (snd (web_fetch_news env t)) = (None, [])"
    by (simp add: web_fetch_news_newsapi)
  have g: "Invoke ''fetch_news_sentiment_from_gnews'' t' \<in> set (fst (web_analyze db env raw)) \<longrightarrow>
        t' = upper db (strip db raw) \<and> endswith (upper db (strip db raw)) (py_literal ''.NS'')
        \<and> APP_GNEWS_API_KEY env \<noteq> None"
    using web_gnews_invoked [of t' db env raw] truthy_set by blast
  have h: "Invoke ''fetch_news_sentiment_from_newsapi'' t' \<in> set (fst (web_analyze db env raw)) \<longrightarrow>
        t' = upper db (strip db raw) \<and> APP_NEWS_API_KEY env \<noteq> None"
    using web_newsapi_invoked [of t' db env raw] truthy_set by blast
  show ?thesis
    by (intro conjI) (rule a b c d e f g h web_block_sentinel)+
qed

theorem news_fetchers_gated_witness:
  "endswith (py_literal ''TCS.NS'') (py_literal ''.NS'')
   \<and> truthy (APP_GNEWS_API_KEY example_web_env)
   \<and> Invoke ''fetch_news_sentiment_from_gnews'' (py_literal ''TCS.NS'')
       \<in> set (fst (web_fetch_news example_web_env (py_literal ''TCS.NS'')))
   \<and> \<not> endswith (py_literal ''AAPL'') (py_literal ''.NS'')
   \<and> snd (snd (web_fetch_news example_web_env (py_literal ''AAPL''))) = (None, [])
   \<and> APP_NEWS_API_KEY example_web_env = None
   \<and> fst (snd (web_fetch_news example_web_env (py_literal ''AAPL''))) = (None, [])"
proof -
  have a: "endswith (py_literal ''TCS.NS'') (py_literal ''.NS'')"
    by (simp add: endswith_def py_literal_def)
  have b: "\<not> endswith (py_literal ''AAPL'') (py_literal ''.NS'')"
    by (simp add: endswith_def py_literal_def)
  have k: "truthy (APP_GNEWS_API_KEY example_web_env)"
    by (simp add: example_web_env_def py_literal_def)
  have n: "APP_NEWS_API_KEY example_web_env = None" by (simp add: example_web_env_def)
  note tcs = news_fetchers_gated [of "py_literal ''TCS.NS''" example_web_env]
  note aapl = news_fetchers_gated [of "py_literal ''AAPL''" example_web_env]
  have c: "Invoke ''fetch_news_sentiment_from_gnews'' (py_literal ''TCS.NS'')
       \<in> set (fst (web_fetch_news example_web_env (py_literal ''TCS.NS'')))"
    using tcs a k by blast
  have d: "snd (snd (web_fetch_news example_web_env (py_literal ''AAPL''))) = (None, [])"
    using aapl b by blast
  have e: "fst (snd (web_fetch_news example_web_env (py_literal ''AAPL''))) = (None, [])"
    using aapl n by blast
  show ?thesis
    by (intro conjI) (rule a b c d e k n)+
qed

lemma desktop_events:
  "ev \<in> set (fst (analyze_stock_action db env raw)) \<Longrightarrow>
   (upper db (strip db raw) = [] \<and> ev = Warning ''Please enter a stock ticker symbol.'')
   \<or> (upper db (strip db raw) \<noteq> []
       \<and> ((\<exists>f. ev = Invoke f (upper db (strip db raw))) \<or> (\<exists>f. ev = Compute f)))"
  by (auto simp: analyze_stock_action_def Let_def
      split: if_splits stock_data.splits option.splits sum.splits)

lemma web_events:
  "ev \<in> set (fst (web_analyze db env raw)) \<Longrightarrow>
   (strip db raw = [] \<and> ev = Warning ''Please enter a stock ticker symbol.'')
   \<or> (strip db raw \<noteq> []
       \<and> ((\<exists>f. ev = Invoke f (upper db (strip db raw))) \<or> (\<exists>f. ev = Compute f)))"
proof (cases "strip db raw = []")
  case True
  assume "ev \<in> set (fst (web_analyze db env raw))"
  with True show ?thesis by (simp add: web_analyze_blank)
next
  case False
  assume "ev \<in> set (fst (web_analyze db env raw))"
  with False show ?thesis using web_analyze_events [of db raw ev env] by simp
qed

lemma desktop_starts:
  "upper db (strip db raw) \<noteq> [] \<Longrightarrow>
   Invoke ''get_stock_data'' (upper db (strip db raw))
     \<in> set (fst (analyze_stock_action db env raw))"
  by (simp add: analyze_stock_action_def Let_def
      split: stock_data.splits option.splits sum.splits)

lemma web_starts:
  "strip db raw \<noteq> [] \<Longrightarrow>
   Invoke ''get_stock_data'' (upper db (strip db raw)) \<in> set (fst (web_analyze db env raw))"
  by (simp add: web_analyze_def Let_def case_prod_beta)

text \<open>
  C10. In both front ends and for every input string, whatever the runtime counts as
  whitespace and however it uppercases: an input that is blank after stripping produces
  the warning and nothing else, no fetch and no analysis. A call, with or without a
  ticker, occurs only when the stripped input is not empty, and every call that takes a
  ticker gets the stripped, uppercased input. When the stripped input is not empty the run
  starts with \<^verbatim>\<open>get_stock_data\<close> on it. The desktop window tests the uppercased
  string, so for it this last part and its converse use that no character has an empty
  uppercase mapping.
\<close>

theorem ticker_stripped_uppercased:
  "(strip db raw = [] \<longrightarrow>
      analyze_stock_action db denv raw
        = ([Warning ''Please enter a stock ticker symbol.''], Inr None)
      \<and> web_analyze db wenv raw = ([Warning ''Please enter a stock ticker symbol.''], None))
   \<and> (Invoke f t \<in> set (fst (analyze_stock_action db denv raw))
        \<or> Invoke f t \<in> set (fst (web_analyze db wenv raw)) \<longrightarrow>
      strip db raw \<noteq> [] \<and> t = upper db (strip db raw))
   \<and> (Compute f \<in> set (fst (analyze_stock_action db denv raw))
        \<or> Compute f \<in> set (fst (web_analyze db wenv raw)) \<longrightarrow>
      strip db raw \<noteq> [])
   \<and> (strip db raw \<noteq> [] \<longrightarrow>
      Invoke ''get_stock_data'' (upper db (strip db raw))
        \<in> set (fst (web_analyze db wenv raw)))
   \<and> (strip db raw \<noteq> [] \<and> (\<forall>c. toupper_full db c \<noteq> []) \<longrightarrow>
      Invoke ''get_stock_data'' (upper db (strip db raw))
        \<in> set (fst (analyze_stock_action db denv raw)))
   \<and> (Warning m \<in> set (fst (web_analyze db wenv raw)) \<longrightarrow> strip db raw = [])
   \<and> (Warning m \<in> set (fst (analyze_stock_action db denv raw)) \<longrightarrow>
      upper db (strip db raw) = [])
   \<and> (Warning m \<in> set (fst (analyze_stock_action db denv raw))
        \<and> (\<forall>c. toupper_full db c \<noteq> []) \<longrightarrow> strip db raw = [])"
proof -
  have a: "strip db raw = [] \<longrightarrow>
      analyze_stock_action db denv raw
        = ([Warning ''Please enter a stock ticker symbol.''], Inr None)
      \<and> web_analyze db wenv raw = ([Warning ''Please enter a stock ticker symbol.''], None)"
    by (simp add: desktop_blank web_analyze_blank)
  have b: "Invoke f t \<in> set (fst (analyze_stock_action db denv raw))
        \<or> Invoke f t \<in> set (fst (web_analyze db wenv raw)) \<longrightarrow>
      strip db raw \<noteq> [] \<and> t = upper db (strip db raw)"
    using desktop_events [of "Invoke f t" db denv raw] web_events [of "Invoke f t" db wenv raw]
      upper_not_Nil [of db "strip db raw"]
    by auto
  have c: "Compute f \<in> set (fst (analyze_stock_action db denv raw))
        \<or> Compute f \<in> set (fst (web_analyze db wenv raw)) \<longrightarrow>
      strip db raw \<noteq> []"
    using desktop_events [of "Compute f" db denv raw] web_events [of "Compute f" db wenv raw]
      upper_not_Nil [of db "strip db raw"]
    by auto
  have d: "strip db raw \<noteq> [] \<longrightarrow>
      Invoke ''get_stock_data'' (upper db (strip db raw))
        \<in> set (fst (web_analyze db wenv raw))"
    using web_starts [of db raw wenv] by blast
  have e: "strip db raw \<noteq> [] \<and> (\<forall>c. toupper_full db c \<noteq> []) \<longrightarrow>
      Invoke ''get_stock_data'' (upper db (strip db raw))
        \<in> set (fst (analyze_stock_action db denv raw))"
    using desktop_starts [of db raw denv] upper_Nil_iff [of db "strip db raw"] by blast
  have g: "Warning m \<in> set (fst (web_analyze db wenv raw)) \<longrightarrow> strip db raw = []"
    using web_events [of "Warning m" db wenv raw] by auto
  have h: "Warning m \<in> set (fst (analyze_stock_action db denv raw)) \<longrightarrow>
      upper db (strip db raw) = []"
    using desktop_events [of "Warning m" db denv raw] by auto
  have i: "Warning m \<in> set (fst (analyze_stock_action db denv raw))
        \<and> (\<forall>c. toupper_full db c \<noteq> []) \<longrightarrow> strip db raw = []"
    using h upper_Nil_iff [of db "strip db raw"] by blast
  show ?thesis
    by (intro conjI) (rule a b c d e g h i)+
qed

lemma example_db_upper: "\<forall>c. toupper_full example_db c \<noteq> []"
  by (simp add: example_db_def)

theorem ticker_stripped_uppercased_witness:
  "strip example_db ([160, 32] @ py_literal ''aapl'' @ [9, 133]) = py_literal ''aapl''
   \<and> upper example_db (py_literal ''aapl'') = py_literal ''AAPL''
   \<and> (\<forall>c. toupper_full example_db c \<noteq> [])
   \<and> Invoke ''get_stock_data'' (py_literal ''AAPL'')
       \<in> set (fst (analyze_stock_action example_db example_desktop_env
                     ([160, 32] @ py_literal ''aapl'' @ [9, 133])))
   \<and> Invoke ''get_stock_data'' (py_literal ''AAPL'')
       \<in> set (fst (web_analyze example_db example_web_env
                     ([160, 32] @ py_literal ''aapl'' @ [9, 133])))
   \<and> strip example_db [32, 160, 8195] = []
   \<and> analyze_stock_action example_db example_desktop_env [32, 160, 8195]
       = ([Warning ''Please enter a stock ticker symbol.''], Inr None)
   \<and> web_analyze example_db example_web_env [32, 160, 8195]
       = ([Warning ''Please enter a stock ticker symbol.''], None)"
proof -
  have a: "strip example_db ([160, 32] @ py_literal ''aapl'' @ [9, 133]) = py_literal ''aapl''"
    by (simp add: strip_def example_db_def py_literal_def)
  have b: "upper example_db (py_literal ''aapl'') = py_literal ''AAPL''"
    by (simp add: upper_def example_db_def py_literal_def)
  have c: "strip example_db [32, 160, 8195] = []"
    by (simp add: strip_def example_db_def)
  note u = example_db_upper
  note run = ticker_stripped_uppercased [of example_db
      "[160, 32] @ py_literal ''aapl'' @ [9, 133]" example_desktop_env example_web_env]
  note blank = ticker_stripped_uppercased [of example_db "[32, 160, 8195]"
      example_desktop_env example_web_env]
  have nb: "strip example_db ([160, 32] @ py_literal ''aapl'' @ [9, 133]) \<noteq> []"
    by (simp only: a) (simp add: py_literal_def)
  have d: "Invoke ''get_stock_data''
             (upper example_db (strip example_db ([160, 32] @ py_literal ''aapl'' @ [9, 133])))
             \<in> set (fst (analyze_stock_action example_db example_desktop_env
                           ([160, 32] @ py_literal ''aapl'' @ [9, 133])))
           \<and> Invoke ''get_stock_data''
             (upper example_db (strip example_db ([160, 32] @ py_literal ''aapl'' @ [9, 133])))
             \<in> set (fst (web_analyze example_db example_web_env
                           ([160, 32] @ py_literal ''aapl'' @ [9, 133])))"
    using run nb u by blast
  have e: "analyze_stock_action example_db example_desktop_env [32, 160, 8195]
             = ([Warning ''Please enter a stock ticker symbol.''], Inr None)
           \<and> web_analyze example_db example_web_env [32, 160, 8195]
             = ([Warning ''Please enter a stock ticker symbol.''], None)"
    using blank c by blast
  from d have d': "Invoke ''get_stock_data'' (py_literal ''AAPL'')
             \<in> set (fst (analyze_stock_action example_db example_desktop_env
                           ([160, 32] @ py_literal ''aapl'' @ [9, 133])))
           \<and> Invoke ''get_stock_data'' (py_literal ''AAPL'')
             \<in> set (fst (web_analyze example_db example_web_env
                           ([160, 32] @ py_literal ''aapl'' @ [9, 133])))"
    by (simp only: a b)
  show ?thesis
    using a b c d' e u by blast
qed

text \<open>
  The desktop window does not guard its own calls: an exception that leaves the NewsAPI
  wrapper, and the \<^verbatim>\<open>TypeError\<close> of line 104 on a missing price, end the run.
\<close>

lemma wrapper_exception_leaves_action:
  "analyze_stock_action example_db
     \<lparr>get_stock_data = (\<lambda>t. History (Some 150)),
      newsapi_for_gui =
        fetch_news_from_newsapi_for_gui (\<lambda>title message. Inr ())
          (Some (\<lambda>q. Inl (NewsAPIException Missing))) (\<lambda>text. Inr 0),
      news_sentiment_from_rss = (\<lambda>t. (None, [])), deepseek_available = False\<rparr>
     (py_literal ''aapl'')
   = ([Invoke ''get_stock_data'' (py_literal ''AAPL''),
       Compute ''calculate_technical_indicators'',
       Invoke ''_fetch_news_from_newsapi_for_gui'' (py_literal ''AAPL'')],
      Inl (Exception ''KeyError''))"
proof -
  have s: "strip example_db (py_literal ''aapl'') = py_literal ''aapl''"
    by (simp add: strip_def example_db_def py_literal_def)
  have u: "upper example_db (py_literal ''aapl'') = py_literal ''AAPL''"
    by (simp add: upper_def example_db_def py_literal_def)
  have n: "py_literal ''AAPL'' \<noteq> []" by (simp add: py_literal_def)
  have w: "fetch_news_from_newsapi_for_gui (\<lambda>title message. Inr ())
          (Some (\<lambda>q. Inl (NewsAPIException Missing))) (\<lambda>text. Inr 0) (py_literal ''AAPL'')
        = Inl (Exception ''KeyError'')"
    by (simp add: fetch_news_from_newsapi_for_gui_def newsapi_try_body_def
        on_newsapi_exception_def)
  show ?thesis
    by (simp add: analyze_stock_action_def Let_def s u n w)
qed

lemma missing_price_ends_action:
  "analyze_stock_action example_db
     \<lparr>get_stock_data = (\<lambda>t. History None),
      newsapi_for_gui = (\<lambda>t. Inr (Some 0.6, [py_literal ''a''])),
      news_sentiment_from_rss = (\<lambda>t. (None, [])), deepseek_available = False\<rparr>
     (py_literal ''aapl'')
   = ([Invoke ''get_stock_data'' (py_literal ''AAPL'')], Inl (Exception ''TypeError''))"
proof -
  have s: "strip example_db (py_literal ''aapl'') = py_literal ''aapl''"
    by (simp add: strip_def example_db_def py_literal_def)
  have u: "upper example_db (py_literal ''aapl'') = py_literal ''AAPL''"
    by (simp add: upper_def example_db_def py_literal_def)
  have n: "py_literal ''AAPL'' \<noteq> []" by (simp add: py_literal_def)
  show ?thesis
    by (simp add: analyze_stock_action_def Let_def s u n)
qed

end
